theory Spec2Isabelle
  imports Complex_Main "HOL-Library.Sublist"
begin

section \<open>Numbers and text\<close>

text \<open>
  A JavaScript \<open>number\<close> is modelled as an exact rational: comparisons, \<open>Math.min\<close>,
  subtraction and the product with \<open>0.1\<close> are the exact operations, so rounding of
  IEEE doubles, \<open>NaN\<close> and the infinities are outside the model. An optional
  property (\<open>buyThreshold?: number\<close>) is an \<open>option\<close>, \<open>None\<close> being \<open>undefined\<close>.

  A template string is the list of its pieces: the literal text, a number printed as
  it is (\<open>${x}\<close>) and a number printed by \<open>toFixed(4)\<close>. The digits a number prints as
  are not computed; two texts are equal when their pieces are.
\<close>

type_synonym number = rat

datatype piece = Lit string | Num number | Fixed4 number

type_synonym message = "piece list"

text \<open>\<open>x || d\<close> on an optional number: \<open>undefined\<close> and \<open>0\<close> are falsy.\<close>

definition or_default :: "number option \<Rightarrow> number \<Rightarrow> number" where
  "or_default x d = (case x of None \<Rightarrow> d | Some v \<Rightarrow> if v = 0 then d else v)"

section \<open>IStrategy.ts and SimpleTraderStrategy.ts\<close>

datatype action_type = Trade | Wait | Liquidity

datatype trade_action = Buy | Sell | Add | Remove

record StrategyAction =
  a_type :: action_type
  a_action :: "trade_action option"
  a_amount :: "number option"
  a_reason :: message

datatype trend = Up | Down | Sideways

record MarketConditions =
  m_timestamp :: nat
  price :: number
  volume :: nat
  trend :: trend

record strategy_parameters =
  p_buyThreshold :: "number option"
  p_sellThreshold :: "number option"
  p_minBalance :: "number option"

datatype last_action = LastBuy | LastSell | LastWait

record SimpleTraderStrategy =
  buyThreshold :: number
  sellThreshold :: number
  minBalance :: number
  lastAction :: last_action

text \<open>The constructor; \<open>lastAction\<close> is initialised to \<open>"wait"\<close> by its field declaration.\<close>

definition new_SimpleTraderStrategy :: "strategy_parameters \<Rightarrow> SimpleTraderStrategy" where
  "new_SimpleTraderStrategy parameters =
     \<lparr> buyThreshold = or_default (p_buyThreshold parameters) 90,
       sellThreshold = or_default (p_sellThreshold parameters) 110,
       minBalance = or_default (p_minBalance parameters) (1 / 10),
       lastAction = LastWait \<rparr>"

text \<open>The default argument \<open>parameters = {}\<close>.\<close>

definition no_parameters :: strategy_parameters where
  "no_parameters = \<lparr> p_buyThreshold = None, p_sellThreshold = None, p_minBalance = None \<rparr>"

text \<open>
  \<open>evaluate\<close> returns the action and the strategy instance after the call, since the
  method assigns \<open>this.lastAction\<close>.
\<close>

definition evaluate ::
  "SimpleTraderStrategy \<Rightarrow> MarketConditions \<Rightarrow> number \<Rightarrow> StrategyAction \<times> SimpleTraderStrategy" where
  "evaluate this conditions walletBalance =
     (if walletBalance < minBalance this then
        (\<lparr> a_type = Wait, a_action = None, a_amount = None,
           a_reason = [Lit ''Insufficient balance ('', Fixed4 walletBalance,
                       Lit '' SOL). Minimum required: '', Num (minBalance this), Lit '' SOL''] \<rparr>,
         this)
      else if price conditions < buyThreshold this \<and> lastAction this \<noteq> LastBuy then
        (let amount = min (walletBalance * (1 / 10)) (1 / 2) in
         (\<lparr> a_type = Trade, a_action = Some Buy, a_amount = Some amount,
            a_reason = [Lit ''Price ('', Num (price conditions),
                        Lit '') below buy threshold ('', Num (buyThreshold this),
                        Lit ''). Buying '', Fixed4 amount, Lit '' SOL worth of tokens.''] \<rparr>,
          this\<lparr> lastAction := LastBuy \<rparr>))
      else if price conditions > sellThreshold this \<and> lastAction this \<noteq> LastSell then
        (let amount = 1 / 10 in
         (\<lparr> a_type = Trade, a_action = Some Sell, a_amount = Some amount,
            a_reason = [Lit ''Price ('', Num (price conditions),
                        Lit '') above sell threshold ('', Num (sellThreshold this),
                        Lit ''). Selling '', Fixed4 amount, Lit '' SOL worth of tokens.''] \<rparr>,
          this\<lparr> lastAction := LastSell \<rparr>))
      else
        (\<lparr> a_type = Wait, a_action = None, a_amount = None,
           a_reason = [Lit ''Price ('', Num (price conditions),
                       Lit '') within normal range ('', Num (buyThreshold this), Lit ''-'',
                       Num (sellThreshold this), Lit ''). Waiting for better opportunity.''] \<rparr>,
         this))"

section \<open>Errors\<close>

text \<open>
  A thrown \<open>Error\<close> is a value. The two wrappers keep the error they wrap, as the
  source keeps its message after the prefix; \<open>External\<close> is an error raised by a
  collaborator outside the repository (network, secure store), with its message.
\<close>

datatype error =
    AgentNotFound string
  | WalletNotFound
  | InsufficientSOLBalance
  | InvalidAccountsForSwap
  | NonBase58Character
  | InvalidPublicKeyInput
  | External string
  | FailedToConstructSwapInstruction error
  | SwapExecutionFailed error

fun error_message :: "error \<Rightarrow> string" where
  "error_message (AgentNotFound agentId) = ''Agent not found: '' @ agentId"
| "error_message WalletNotFound = ''Wallet not found''"
| "error_message InsufficientSOLBalance = ''Insufficient SOL balance''"
| "error_message InvalidAccountsForSwap = ''Invalid accounts for swap''"
| "error_message NonBase58Character = ''Non-base58 character''"
| "error_message InvalidPublicKeyInput = ''Invalid public key input''"
| "error_message (External m) = m"
| "error_message (FailedToConstructSwapInstruction e) =
     ''Failed to construct swap instruction: '' @ error_message e"
| "error_message (SwapExecutionFailed e) = ''Swap execution failed: '' @ error_message e"

section \<open>The SDK's public keys\<close>

text \<open>
  \<open>new PublicKey(s)\<close> of \<open>@solana/web3.js\<close> decodes the string from base 58 and throws
  unless the result has 32 bytes. The decoder throws on a character outside the
  alphabet; each leading \<open>1\<close> is a zero byte and the rest is a number written in
  base 58, stored in as few bytes as it needs.
\<close>

definition base58_alphabet :: string where
  "base58_alphabet = ''123456789ABCDEFGHJKLMNPQRSTUVWXYZabcdefghijkmnopqrstuvwxyz''"

fun index_of :: "'a \<Rightarrow> 'a list \<Rightarrow> nat option" where
  "index_of x [] = None"
| "index_of x (y # ys) = (if x = y then Some 0 else map_option Suc (index_of x ys))"

fun base58_value :: "nat \<Rightarrow> string \<Rightarrow> nat option" where
  "base58_value acc [] = Some acc"
| "base58_value acc (c # cs) =
     (case index_of c base58_alphabet of
        None \<Rightarrow> None
      | Some d \<Rightarrow> base58_value (acc * 58 + d) cs)"

fun byte_count :: "nat \<Rightarrow> nat" where
  "byte_count n = (if n = 0 then 0 else Suc (byte_count (n div 256)))"

definition bs58_decoded_length :: "string \<Rightarrow> error + nat" where
  "bs58_decoded_length s =
     (case base58_value 0 s of
        None \<Rightarrow> Inl NonBase58Character
      | Some v \<Rightarrow> Inr (length (takeWhile (\<lambda>c. c = CHR ''1'') s) + byte_count v))"

definition new_PublicKey :: "string \<Rightarrow> error + string" where
  "new_PublicKey s =
     (case bs58_decoded_length s of
        Inl e \<Rightarrow> Inl e
      | Inr n \<Rightarrow> if n \<noteq> 32 then Inl InvalidPublicKeyInput else Inr s)"

section \<open>WalletManager.ts\<close>

record TokenBalance =
  mint :: string
  t_amount :: number
  decimals :: nat

record WalletInfo =
  publicKey :: string
  createdAt :: nat
  balance :: number
  tokenBalances :: "TokenBalance list"

type_synonym wallets = "string \<rightharpoonup> WalletInfo"

text \<open>
  \<open>createWallet\<close>: the key pair that \<open>Keypair.generate()\<close> draws and what
  \<open>keyStore.storeKey\<close> does with it come from outside, so the new public key, the
  message of the error the key store throws (if it does) and the time are arguments.
\<close>

definition createWallet ::
  "string \<Rightarrow> string option \<Rightarrow> nat \<Rightarrow> wallets \<Rightarrow> error + (WalletInfo \<times> wallets)" where
  "createWallet newKey storeKey now ws =
     (case storeKey of
        Some m \<Rightarrow> Inl (External m)
      | None \<Rightarrow>
          (let walletInfo = \<lparr> publicKey = newKey, createdAt = now, balance = 0, tokenBalances = [] \<rparr>
           in Inr (walletInfo, ws(newKey \<mapsto> walletInfo))))"

definition getWallet :: "wallets \<Rightarrow> string \<Rightarrow> WalletInfo option" where
  "getWallet ws pk = ws pk"

definition updateBalance :: "string \<Rightarrow> number \<Rightarrow> wallets \<Rightarrow> wallets" where
  "updateBalance pk b ws =
     (case ws pk of None \<Rightarrow> ws | Some wallet \<Rightarrow> ws(pk \<mapsto> wallet\<lparr> balance := b \<rparr>))"

definition updateTokenBalances :: "string \<Rightarrow> TokenBalance list \<Rightarrow> wallets \<Rightarrow> wallets" where
  "updateTokenBalances pk tbs ws =
     (case ws pk of None \<Rightarrow> ws | Some wallet \<Rightarrow> ws(pk \<mapsto> wallet\<lparr> tokenBalances := tbs \<rparr>))"

section \<open>DeFiClient.ts\<close>

record SwapParams =
  fromToken :: string
  toToken :: string
  amount :: number
  slippage :: number

record TransactionInstruction =
  signer :: string
  data :: SwapParams

text \<open>\<open>validateAccounts\<close>: the body of the \<open>try\<close>, then the \<open>catch\<close> that turns a throw into \<open>false\<close>.\<close>

definition validateAccounts_try :: "wallets \<Rightarrow> string \<Rightarrow> SwapParams \<Rightarrow> error + bool" where
  "validateAccounts_try ws walletPublicKey params =
     (case getWallet ws walletPublicKey of
        None \<Rightarrow> Inr False
      | Some wallet \<Rightarrow>
          if fromToken params = ''SOL'' \<and> balance wallet < amount params
          then Inl InsufficientSOLBalance
          else Inr True)"

definition validateAccounts :: "wallets \<Rightarrow> string \<Rightarrow> SwapParams \<Rightarrow> bool" where
  "validateAccounts ws walletPublicKey params =
     (case validateAccounts_try ws walletPublicKey params of Inl e \<Rightarrow> False | Inr b \<Rightarrow> b)"

definition getWalletBalance :: "wallets \<Rightarrow> string \<Rightarrow> number" where
  "getWalletBalance ws walletPublicKey =
     or_default (map_option balance (getWallet ws walletPublicKey)) 0"

definition updateBalancesAfterSwap :: "string \<Rightarrow> SwapParams \<Rightarrow> number \<Rightarrow> wallets \<Rightarrow> wallets" where
  "updateBalancesAfterSwap walletPublicKey params balanceBefore ws =
     (if fromToken params = ''SOL''
      then updateBalance walletPublicKey (balanceBefore - amount params) ws
      else ws)"

definition constructSwapInstruction_try ::
  "wallets \<Rightarrow> SwapParams \<Rightarrow> string \<Rightarrow> error + TransactionInstruction" where
  "constructSwapInstruction_try ws params walletPublicKey =
     (case new_PublicKey walletPublicKey of
        Inl e \<Rightarrow> Inl e
      | Inr wallet \<Rightarrow>
          if \<not> validateAccounts ws walletPublicKey params then Inl InvalidAccountsForSwap
          else Inr \<lparr> signer = wallet, data = params \<rparr>)"

definition constructSwapInstruction ::
  "wallets \<Rightarrow> SwapParams \<Rightarrow> string \<Rightarrow> error + TransactionInstruction" where
  "constructSwapInstruction ws params walletPublicKey =
     (case constructSwapInstruction_try ws params walletPublicKey of
        Inl e \<Rightarrow> Inl (FailedToConstructSwapInstruction e)
      | Inr i \<Rightarrow> Inr i)"

text \<open>
  \<open>executeSwap\<close>: what \<open>getLatestBlockhash\<close> answers (\<open>Inr\<close> a block hash, or \<open>Inl\<close>
  the message of the error it throws) and \<open>Date.now()\<close> are arguments. The wallet table is returned in both outcomes, as
  it is after a throw and after a return.
\<close>

definition executeSwap_try ::
  "(string + string) \<Rightarrow> nat \<Rightarrow> SwapParams \<Rightarrow> string \<Rightarrow> wallets \<Rightarrow> (error + message) \<times> wallets" where
  "executeSwap_try latestBlockhash now params walletPublicKey ws =
     (let balanceBefore = getWalletBalance ws walletPublicKey in
      case constructSwapInstruction ws params walletPublicKey of
        Inl e \<Rightarrow> (Inl e, ws)
      | Inr swapInstruction \<Rightarrow>
          (case latestBlockhash of
             Inl m \<Rightarrow> (Inl (External m), ws)
           | Inr blockhash \<Rightarrow>
               (case new_PublicKey walletPublicKey of
                  Inl e \<Rightarrow> (Inl e, ws)
                | Inr feePayer \<Rightarrow>
                    (let mockSignature = [Lit ''mock_swap_'', Num (of_nat now)]
                     in (Inr mockSignature,
                         updateBalancesAfterSwap walletPublicKey params balanceBefore ws)))))"

definition executeSwap ::
  "(string + string) \<Rightarrow> nat \<Rightarrow> SwapParams \<Rightarrow> string \<Rightarrow> wallets \<Rightarrow> (error + message) \<times> wallets" where
  "executeSwap latestBlockhash now params walletPublicKey ws =
     (case executeSwap_try latestBlockhash now params walletPublicKey ws of
        (Inl e, ws') \<Rightarrow> (Inl (SwapExecutionFailed e), ws')
      | (Inr signature, ws') \<Rightarrow> (Inr signature, ws'))"

section \<open>types/index.ts: agents\<close>

text \<open>
  \<open>OtherType\<close> stands for a \<open>type\<close> string outside the declared union, which the
  \<open>default\<close> branch of \<open>createStrategyInstance\<close> receives.
\<close>

datatype strategy_type = SimpleTrader | LiquidityProvider | Arbitrage | OtherType string

fun strategy_type_name :: "strategy_type \<Rightarrow> string" where
  "strategy_type_name SimpleTrader = ''simple-trader''"
| "strategy_type_name LiquidityProvider = ''liquidity-provider''"
| "strategy_type_name Arbitrage = ''arbitrage''"
| "strategy_type_name (OtherType s) = s"

record AgentStrategy =
  s_type :: strategy_type
  parameters :: strategy_parameters

datatype agent_status = Active | Paused | Stopped

datatype activity_result = Success | Failure

record AgentActivity =
  timestamp :: nat
  action :: string
  decision :: message
  transactionSignature :: "message option"
  result :: activity_result

record Agent =
  agent_id :: string
  walletPublicKey :: string
  strategy :: AgentStrategy
  status :: agent_status
  activityLog :: "AgentActivity list"

section \<open>AgentController.ts\<close>

text \<open>
  The state is the controller's three fields, the interval timers of the runtime, the
  wallet table of the wallet manager and the calls that are suspended at an \<open>await\<close>.
  \<open>setInterval\<close> hands out a new handle for each timer it starts; \<open>runningIntervals\<close>
  maps the handle of every timer that has not been cleared to the agent id its callback
  runs the decision cycle of. The Set \<open>activeAgentIds\<close> is the list of its elements in
  insertion order.

  An \<open>async\<close> method runs without interruption up to an \<open>await\<close>; there it is suspended
  and other calls may run before it goes on. A suspended call is a \<open>task\<close>: what is
  left of it, with what it holds in its local variables.
  \<^item> \<open>DeleteRest\<close>: \<open>deleteAgent\<close> after \<open>await this.stopAgent(agentId)\<close>; the removal
    from the registry is left.
  \<^item> \<open>StopAllRest\<close>: \<open>stopAllAgents\<close> after an \<open>await this.stopAgent(agentId)\<close> of its
    loop; the ids after it in the copied array are left.
  \<^item> \<open>CycleRest\<close>: \<open>executeDecisionCycle\<close> after \<open>await walletManager.getWallet(...)\<close>;
    it holds the agent object it has read and whether the wallet was found.
  \<^item> \<open>TradeRest\<close>: \<open>executeDecisionCycle\<close> after \<open>await this.executeTrade(...)\<close>; it
    holds the agent object and the action decided on.
  \<^item> \<open>BalanceRest\<close>: \<open>executeDecisionCycle\<close> after
    \<open>await this.updateWalletBalance(...)\<close>; it holds the key of the wallet.
  \<open>stopAgent\<close> and \<open>startAgent\<close> contain no \<open>await\<close> and run to their end at once.
  \<open>createAgent\<close> writes to the controller only after its one \<open>await\<close>, where it also
  builds the id, and is taken as one step. The calls a decision cycle awaits,
  \<open>executeTrade\<close> and \<open>updateWalletBalance\<close>, write to the wallet table alone; each is
  taken as one step, done when the cycle goes on after it.
\<close>

datatype task =
    DeleteRest string
  | StopAllRest "string list" nat
  | CycleRest string Agent bool
  | TradeRest string Agent StrategyAction
  | BalanceRest string

text \<open>How a call or a resumed task ends its turn: it returns, it throws, or it is suspended.\<close>

datatype outcome = Done | Failed error | Suspended task

record world =
  agents :: "string \<rightharpoonup> Agent"
  activeAgentIds :: "string list"
  decisionIntervals :: "string \<rightharpoonup> nat"
  runningIntervals :: "nat \<rightharpoonup> string"
  nextIntervalHandle :: nat
  walletTable :: wallets
  suspended :: "task list"

definition initial_world :: world where
  "initial_world =
     \<lparr> agents = Map.empty, activeAgentIds = [], decisionIntervals = Map.empty,
       runningIntervals = Map.empty, nextIntervalHandle = 1, walletTable = Map.empty,
       suspended = [] \<rparr>"

text \<open>A call that is suspended joins the suspended tasks.\<close>

definition settle :: "outcome \<times> world \<Rightarrow> world" where
  "settle r =
     (case fst r of
        Suspended t \<Rightarrow> (snd r)\<lparr> suspended := suspended (snd r) @ [t] \<rparr>
      | _ \<Rightarrow> snd r)"

definition set_add :: "'a \<Rightarrow> 'a list \<Rightarrow> 'a list" where
  "set_add x xs = (if x \<in> set xs then xs else xs @ [x])"

definition set_delete :: "'a \<Rightarrow> 'a list \<Rightarrow> 'a list" where
  "set_delete x xs = filter (\<lambda>y. y \<noteq> x) xs"

text \<open>\<open>xs.slice(start)\<close>: a negative start counts from the end and is clamped at 0.\<close>

definition slice :: "int \<Rightarrow> 'a list \<Rightarrow> 'a list" where
  "slice start xs =
     (let len = int (length xs);
          k = (if start < 0 then max (len + start) 0 else min start len)
      in drop (nat k) xs)"

definition logActivity :: "string \<Rightarrow> AgentActivity \<Rightarrow> world \<Rightarrow> world" where
  "logActivity agentId activity w =
     (case agents w agentId of
        None \<Rightarrow> w
      | Some agent \<Rightarrow>
          (let pushed = activityLog agent @ [activity];
               kept = (if length pushed > 100 then slice (- 100) pushed else pushed)
           in w\<lparr> agents := (agents w)(agentId \<mapsto> agent\<lparr> activityLog := kept \<rparr>) \<rparr>))"

text \<open>
  \<open>createAgent\<close>: the id built from \<open>Date.now()\<close> and \<open>Math.random()\<close> is the argument
  \<open>agentId\<close>; \<open>newKey\<close> and \<open>storeKey\<close> are the arguments of \<open>createWallet\<close>.
\<close>

definition createAgent ::
  "string \<Rightarrow> string option \<Rightarrow> string \<Rightarrow> nat \<Rightarrow> AgentStrategy \<Rightarrow> world \<Rightarrow> error + (Agent \<times> world)" where
  "createAgent newKey storeKey agentId now strat w =
     (case createWallet newKey storeKey now (walletTable w) of
        Inl e \<Rightarrow> Inl e
      | Inr (wallet, ws) \<Rightarrow>
          (let agent = \<lparr> agent_id = agentId, walletPublicKey = publicKey wallet, strategy = strat,
                         status = Stopped, activityLog = [] \<rparr>;
               w1 = w\<lparr> walletTable := ws, agents := (agents w)(agentId \<mapsto> agent) \<rparr>;
               w2 = logActivity agentId
                      \<lparr> timestamp = now, action = ''created'',
                        decision = [Lit ''Agent created with '', Lit (strategy_type_name (s_type strat)),
                                    Lit '' strategy''],
                        transactionSignature = None, result = Success \<rparr> w1
           in case agents w2 agentId of
                None \<Rightarrow> Inr (agent, w2)
              | Some stored \<Rightarrow> Inr (stored, w2)))"

definition createStrategyInstance :: "AgentStrategy \<Rightarrow> SimpleTraderStrategy" where
  "createStrategyInstance strategyConfig =
     (case s_type strategyConfig of
        SimpleTrader \<Rightarrow> new_SimpleTraderStrategy (parameters strategyConfig)
      | LiquidityProvider \<Rightarrow> new_SimpleTraderStrategy (parameters strategyConfig)
      | Arbitrage \<Rightarrow> new_SimpleTraderStrategy (parameters strategyConfig)
      | OtherType t \<Rightarrow> new_SimpleTraderStrategy no_parameters)"

definition executeTrade ::
  "(string + string) \<Rightarrow> nat \<Rightarrow> string \<Rightarrow> trade_action \<Rightarrow> number \<Rightarrow> wallets \<Rightarrow> (error + message) \<times> wallets" where
  "executeTrade latestBlockhash now pk act amt ws =
     executeSwap latestBlockhash now
       \<lparr> fromToken = (if act = Buy then ''SOL'' else ''TOKEN''),
         toToken = (if act = Buy then ''TOKEN'' else ''SOL''),
         amount = amt, slippage = 1 \<rparr>
       pk ws"

text \<open>
  \<open>updateWalletBalance\<close>: \<open>chain\<close> is what \<open>blockchainClient.getBalance\<close> and
  \<open>getTokenBalances\<close> answer, or the message of the error one of them throws; both are awaited before
  the table is written, and the \<open>catch\<close> only logs.
\<close>

definition updateWalletBalance ::
  "(string + number \<times> TokenBalance list) \<Rightarrow> string \<Rightarrow> wallets \<Rightarrow> wallets" where
  "updateWalletBalance chain pk ws =
     (case chain of
        Inl e \<Rightarrow> ws
      | Inr (b, tbs) \<Rightarrow> updateTokenBalances pk tbs (updateBalance pk b ws))"

fun action_type_name :: "action_type \<Rightarrow> string" where
  "action_type_name Trade = ''trade''"
| "action_type_name Wait = ''wait''"
| "action_type_name Liquidity = ''liquidity''"

text \<open>
  What one decision cycle takes from outside: the tick of \<open>marketDataGenerator.generateNext()\<close>,
  the clock, the answer of \<open>getLatestBlockhash\<close> and the answer of the balance queries.
\<close>

record cycle_env =
  tick :: MarketConditions
  clock :: nat
  latestBlockhash :: "string + string"
  chain :: "string + number \<times> TokenBalance list"

text \<open>The action a cycle decides on: a new strategy instance evaluates the tick.\<close>

definition cycle_action :: "Agent \<Rightarrow> WalletInfo \<Rightarrow> cycle_env \<Rightarrow> StrategyAction" where
  "cycle_action agent wallet env =
     (let strategy = createStrategyInstance (strategy agent)
      in fst (evaluate strategy (tick env) (balance wallet)))"

text \<open>
  \<open>executeDecisionCycle\<close>, the call: it returns at once when the agent is unknown or
  not active; otherwise it asks for the wallet and is suspended. Nothing is written.
\<close>

definition executeDecisionCycle :: "string \<Rightarrow> world \<Rightarrow> outcome" where
  "executeDecisionCycle agentId w =
     (case agents w agentId of
        None \<Rightarrow> Done
      | Some agent \<Rightarrow>
          if status agent \<noteq> Active then Done
          else Suspended (CycleRest agentId agent
                 (getWallet (walletTable w) (walletPublicKey agent) \<noteq> None)))"

text \<open>
  \<open>executeDecisionCycle\<close>, resumed after the wallet is read: the body of the outer
  \<open>try\<close> from the test of the wallet up to the call of \<open>executeTrade\<close>, where it is
  suspended, or to the log of a decision to wait; then the outer \<open>catch\<close>. The status
  is not read again. The wallet is the object found before the \<open>await\<close>, which the
  wallet manager updates in place, so its balance is the one the table has now; no
  call of this model removes a wallet from the table.
\<close>

definition executeDecisionCycle_resumed_try ::
  "string \<Rightarrow> Agent \<Rightarrow> bool \<Rightarrow> cycle_env \<Rightarrow> world \<Rightarrow> error + outcome \<times> world" where
  "executeDecisionCycle_resumed_try agentId agent found env w =
     (case (if found then getWallet (walletTable w) (walletPublicKey agent) else None) of
        None \<Rightarrow> Inl WalletNotFound
      | Some wallet \<Rightarrow>
          (let act = cycle_action agent wallet env in
           if a_type act = Trade \<and> a_action act \<noteq> None
              \<and> (a_action act = Some Buy \<or> a_action act = Some Sell)
           then Inr (Suspended (TradeRest agentId agent act), w)
           else
             Inr (Done,
                  logActivity agentId
                    \<lparr> timestamp = clock env, action = action_type_name (a_type act),
                      decision = a_reason act,
                      transactionSignature = None, result = Success \<rparr> w)))"

definition executeDecisionCycle_resumed ::
  "string \<Rightarrow> Agent \<Rightarrow> bool \<Rightarrow> cycle_env \<Rightarrow> world \<Rightarrow> outcome \<times> world" where
  "executeDecisionCycle_resumed agentId agent found env w =
     (case executeDecisionCycle_resumed_try agentId agent found env w of
        Inr r \<Rightarrow> r
      | Inl e \<Rightarrow>
          (Done,
           logActivity agentId
             \<lparr> timestamp = clock env, action = ''error'',
               decision = [Lit ''Decision cycle failed: '', Lit (error_message e)],
               transactionSignature = None, result = Failure \<rparr> w))"

text \<open>
  \<open>executeDecisionCycle\<close>, resumed after \<open>executeTrade\<close>: the trade is done; when it
  has returned a signature the success is logged and the cycle is suspended at
  \<open>updateWalletBalance\<close>; when it has thrown, the inner \<open>catch\<close> logs the failure and
  the cycle ends.
\<close>

definition executeDecisionCycle_traded ::
  "string \<Rightarrow> Agent \<Rightarrow> StrategyAction \<Rightarrow> cycle_env \<Rightarrow> world \<Rightarrow> outcome \<times> world" where
  "executeDecisionCycle_traded agentId agent act env w =
     (case executeTrade (latestBlockhash env) (clock env) (walletPublicKey agent)
             (the (a_action act)) (or_default (a_amount act) (1 / 10)) (walletTable w) of
        (Inr signature, ws) \<Rightarrow>
          (Suspended (BalanceRest (walletPublicKey agent)),
           logActivity agentId
             \<lparr> timestamp = clock env, action = action_type_name (a_type act),
               decision = a_reason act,
               transactionSignature = Some signature, result = Success \<rparr>
             (w\<lparr> walletTable := ws \<rparr>))
      | (Inl e, ws) \<Rightarrow>
          (Done,
           logActivity agentId
             \<lparr> timestamp = clock env, action = action_type_name (a_type act),
               decision = [Lit ''Trade failed: '', Lit (error_message e)],
               transactionSignature = None, result = Failure \<rparr>
             (w\<lparr> walletTable := ws \<rparr>)))"

text \<open>
  \<open>executeDecisionCycle\<close>, resumed after \<open>updateWalletBalance\<close>: the balances are
  written and the cycle ends.
\<close>

definition executeDecisionCycle_updated :: "string \<Rightarrow> cycle_env \<Rightarrow> world \<Rightarrow> outcome \<times> world" where
  "executeDecisionCycle_updated pk env w =
     (Done, w\<lparr> walletTable := updateWalletBalance (chain env) pk (walletTable w) \<rparr>)"

text \<open>
  \<open>startDecisionLoop\<close> starts the timer and calls the first cycle without awaiting it:
  the cycle runs up to its \<open>await\<close> and stays suspended when the method returns.
\<close>

definition startDecisionLoop :: "string \<Rightarrow> world \<Rightarrow> world" where
  "startDecisionLoop agentId w =
     (let interval = nextIntervalHandle w;
          w1 = w\<lparr> runningIntervals := (runningIntervals w)(interval \<mapsto> agentId),
                  nextIntervalHandle := interval + 1,
                  decisionIntervals := (decisionIntervals w)(agentId \<mapsto> interval) \<rparr>
      in settle (executeDecisionCycle agentId w1, w1))"

definition startAgent :: "string \<Rightarrow> nat \<Rightarrow> world \<Rightarrow> error + world" where
  "startAgent agentId now w =
     (case agents w agentId of
        None \<Rightarrow> Inl (AgentNotFound agentId)
      | Some agent \<Rightarrow>
          if status agent = Active then Inr w
          else
            (let w1 = w\<lparr> agents := (agents w)(agentId \<mapsto> agent\<lparr> status := Active \<rparr>),
                        activeAgentIds := set_add agentId (activeAgentIds w) \<rparr>;
                 w2 = logActivity agentId
                        \<lparr> timestamp = now, action = ''started'',
                          decision = [Lit ''Agent activated and beginning autonomous operations''],
                          transactionSignature = None, result = Success \<rparr> w1
             in Inr (startDecisionLoop agentId w2)))"

definition stopAgent :: "string \<Rightarrow> nat \<Rightarrow> world \<Rightarrow> error + world" where
  "stopAgent agentId now w =
     (case agents w agentId of
        None \<Rightarrow> Inl (AgentNotFound agentId)
      | Some agent \<Rightarrow>
          (let w1 = (case decisionIntervals w agentId of
                       None \<Rightarrow> w
                     | Some interval \<Rightarrow>
                         w\<lparr> runningIntervals := (runningIntervals w)(interval := None),
                            decisionIntervals := (decisionIntervals w)(agentId := None) \<rparr>);
               w2 = w1\<lparr> agents := (agents w1)(agentId \<mapsto> agent\<lparr> status := Stopped \<rparr>),
                         activeAgentIds := set_delete agentId (activeAgentIds w1) \<rparr>
           in Inr (logActivity agentId
                     \<lparr> timestamp = now, action = ''stopped'',
                       decision = [Lit ''Agent deactivated''],
                       transactionSignature = None, result = Success \<rparr> w2)))"

text \<open>
  \<open>stopAllAgents\<close>: the loop runs over the array copied from the Set before the first
  stop. One turn of the loop stops the next id of the array and is suspended at the
  \<open>await\<close>; a throw of \<open>stopAgent\<close> leaves the loop and the method. With no id left the
  method returns.
\<close>

fun stopAll_turn :: "string list \<Rightarrow> nat \<Rightarrow> world \<Rightarrow> outcome \<times> world" where
  "stopAll_turn [] now w = (Done, w)"
| "stopAll_turn (agentId # rest) now w =
     (case stopAgent agentId now w of
        Inl e \<Rightarrow> (Failed e, w)
      | Inr w' \<Rightarrow> (Suspended (StopAllRest rest now), w'))"

definition stopAllAgents :: "nat \<Rightarrow> world \<Rightarrow> outcome \<times> world" where
  "stopAllAgents now w = stopAll_turn (activeAgentIds w) now w"

text \<open>
  \<open>deleteAgent\<close>: for an id of the active Set it stops the agent and is suspended at
  the \<open>await\<close>, the removal being left; for any other id it removes at once.
\<close>

definition deleteAgent_rest :: "string \<Rightarrow> world \<Rightarrow> world" where
  "deleteAgent_rest agentId w = w\<lparr> agents := (agents w)(agentId := None) \<rparr>"

definition deleteAgent :: "string \<Rightarrow> nat \<Rightarrow> world \<Rightarrow> outcome \<times> world" where
  "deleteAgent agentId now w =
     (if agentId \<in> set (activeAgentIds w) then
        (case stopAgent agentId now w of
           Inl e \<Rightarrow> (Failed e, w)
         | Inr w' \<Rightarrow> (Suspended (DeleteRest agentId), w'))
      else (Done, deleteAgent_rest agentId w))"

text \<open>A suspended task goes on, up to its next \<open>await\<close> or its end.\<close>

fun resume :: "task \<Rightarrow> cycle_env \<Rightarrow> world \<Rightarrow> outcome \<times> world" where
  "resume (DeleteRest agentId) env w = (Done, deleteAgent_rest agentId w)"
| "resume (StopAllRest rest now) env w = stopAll_turn rest now w"
| "resume (CycleRest agentId agent found) env w =
     executeDecisionCycle_resumed agentId agent found env w"
| "resume (TradeRest agentId agent act) env w = executeDecisionCycle_traded agentId agent act env w"
| "resume (BalanceRest pk) env w = executeDecisionCycle_updated pk env w"

text \<open>
  The turns of \<open>stopAllAgents\<close> run one after the other with nothing in between: the
  error of the turn that throws, if one does, and the state at the end.
\<close>

fun stopAll_alone :: "string list \<Rightarrow> nat \<Rightarrow> world \<Rightarrow> error option \<times> world" where
  "stopAll_alone [] now w = (None, w)"
| "stopAll_alone (agentId # rest) now w =
     (case stopAll_turn (agentId # rest) now w of
        (Failed e, w') \<Rightarrow> (Some e, w')
      | (other, w') \<Rightarrow> stopAll_alone rest now w')"

definition stopAllAgents_alone :: "nat \<Rightarrow> world \<Rightarrow> error option \<times> world" where
  "stopAllAgents_alone now w = stopAll_alone (activeAgentIds w) now w"

section \<open>AgentCreationModal: handleCreate\<close>

text \<open>
  The three text fields arrive as what \<open>parseFloat\<close> makes of them, \<open>None\<close> being
  \<open>NaN\<close>. The result is the alerts shown and the state: \<open>onCreateAgent\<close> is the list
  screen's \<open>handleCreateAgent\<close>, which calls \<open>createAgent\<close> of the controller through
  the context and shows the success alert. When \<open>createAgent\<close> throws, the context
  stores the message of the error, which the list screen shows in an "Error" alert
  unless it is empty, and the throw is swallowed.
\<close>

datatype alert = Alert string string

definition handleCreate_validate ::
  "strategy_type \<Rightarrow> number option \<Rightarrow> number option \<Rightarrow> number option \<Rightarrow> alert + AgentStrategy" where
  "handleCreate_validate selectedStrategy buyThresholdNum sellThresholdNum minBalanceNum =
     (if buyThresholdNum = None \<or> sellThresholdNum = None \<or> minBalanceNum = None
      then Inl (Alert ''Invalid Input'' ''Please enter valid numbers for all parameters'')
      else if the buyThresholdNum \<ge> the sellThresholdNum
      then Inl (Alert ''Invalid Input'' ''Buy threshold must be less than sell threshold'')
      else if the minBalanceNum < 0
      then Inl (Alert ''Invalid Input'' ''Minimum balance must be positive'')
      else Inr \<lparr> s_type = selectedStrategy,
                 parameters = \<lparr> p_buyThreshold = buyThresholdNum,
                                p_sellThreshold = sellThresholdNum,
                                p_minBalance = minBalanceNum \<rparr> \<rparr>)"

definition handleCreate ::
  "strategy_type \<Rightarrow> number option \<Rightarrow> number option \<Rightarrow> number option
     \<Rightarrow> string \<Rightarrow> string option \<Rightarrow> string \<Rightarrow> nat \<Rightarrow> world \<Rightarrow> alert list \<times> world" where
  "handleCreate selectedStrategy buyThresholdNum sellThresholdNum minBalanceNum
       newKey storeKey agentId now w =
     (case handleCreate_validate selectedStrategy buyThresholdNum sellThresholdNum minBalanceNum of
        Inl a \<Rightarrow> ([a], w)
      | Inr strat \<Rightarrow>
          (case createAgent newKey storeKey agentId now strat w of
             Inl e \<Rightarrow> (if error_message e = [] then [] else [Alert ''Error'' (error_message e)], w)
           | Inr (agent, w') \<Rightarrow> ([Alert ''Success'' ''Agent created successfully!''], w')))"

section \<open>Runs of the controller\<close>

text \<open>
  What can happen next: a call from the user interface, a timer that fires, a
  suspended task that goes on, the wallet screen writing a balance it has read from
  the chain. \<open>step\<close> gives how the turn ends and the state after it, which for a throw is
  the state at the throw; \<open>perform\<close> is the state once a suspended call has joined the
  suspended tasks. \<open>Resume k\<close> takes the task at position \<open>k\<close> from the suspended ones
  and lets it go on; the \<open>cycle_env\<close> is what a decision cycle takes from outside.
  The callback of a timer is \<open>executeDecisionCycle\<close> for the id the timer was started
  with.
\<close>

datatype event =
    CreateAgent string "string option" string nat AgentStrategy
  | StartAgent string nat
  | StopAgent string nat
  | StopAllAgents nat
  | DeleteAgent string nat
  | IntervalFires nat
  | Resume nat cycle_env
  | RefreshWallet string number "TokenBalance list"

fun step :: "event \<Rightarrow> world \<Rightarrow> outcome \<times> world" where
  "step (CreateAgent newKey storeKey agentId now strat) w =
     (case createAgent newKey storeKey agentId now strat w of
        Inl e \<Rightarrow> (Failed e, w)
      | Inr (agent, w') \<Rightarrow> (Done, w'))"
| "step (StartAgent agentId now) w =
     (case startAgent agentId now w of Inl e \<Rightarrow> (Failed e, w) | Inr w' \<Rightarrow> (Done, w'))"
| "step (StopAgent agentId now) w =
     (case stopAgent agentId now w of Inl e \<Rightarrow> (Failed e, w) | Inr w' \<Rightarrow> (Done, w'))"
| "step (StopAllAgents now) w = stopAllAgents now w"
| "step (DeleteAgent agentId now) w = deleteAgent agentId now w"
| "step (IntervalFires interval) w =
     (case runningIntervals w interval of
        None \<Rightarrow> (Done, w)
      | Some agentId \<Rightarrow> (executeDecisionCycle agentId w, w))"
| "step (Resume k env) w =
     (if k < length (suspended w)
      then resume (suspended w ! k) env
             (w\<lparr> suspended := take k (suspended w) @ drop (Suc k) (suspended w) \<rparr>)
      else (Done, w))"
| "step (RefreshWallet pk b tbs) w =
     (Done, w\<lparr> walletTable := updateTokenBalances pk tbs (updateBalance pk b (walletTable w)) \<rparr>)"

definition perform :: "event \<Rightarrow> world \<Rightarrow> world" where
  "perform ev w = settle (step ev w)"

text \<open>
  The id \<open>createAgent\<close> builds from the clock and a random number is taken to be new:
  a creation is admissible when no agent has its id.
\<close>

fun admissible :: "event \<Rightarrow> world \<Rightarrow> bool" where
  "admissible (CreateAgent newKey storeKey agentId now strat) w = (agents w agentId = None)"
| "admissible ev w = True"

inductive reachable :: "world \<Rightarrow> bool" where
  start: "reachable initial_world"
| step: "reachable w \<Longrightarrow> admissible ev w \<Longrightarrow> reachable (perform ev w)"

definition status_of :: "world \<Rightarrow> string \<Rightarrow> agent_status option" where
  "status_of w agentId = map_option status (agents w agentId)"

definition log_of :: "world \<Rightarrow> string \<Rightarrow> AgentActivity list" where
  "log_of w agentId = (case agents w agentId of None \<Rightarrow> [] | Some agent \<Rightarrow> activityLog agent)"

text \<open>Every agent's activity log has at most 100 entries.\<close>

definition logs_bounded :: "world \<Rightarrow> bool" where
  "logs_bounded w = (\<forall>agentId agent. agents w agentId = Some agent \<longrightarrow> length (activityLog agent) \<le> 100)"

text \<open>
  Status and schedule agree: an agent is active exactly when the controller holds a
  timer for its id; the timers the controller holds are exactly the timers running,
  each running the cycle of the id it is held for; and the Set of active ids is the
  set of ids with a timer.
\<close>

definition schedule_agrees :: "world \<Rightarrow> bool" where
  "schedule_agrees w =
     ((\<forall>agentId. status_of w agentId = Some Active \<longleftrightarrow> decisionIntervals w agentId \<noteq> None)
      \<and> (\<forall>agentId interval.
            decisionIntervals w agentId = Some interval \<longleftrightarrow> runningIntervals w interval = Some agentId)
      \<and> (\<forall>interval agentId. runningIntervals w interval = Some agentId \<longrightarrow> interval < nextIntervalHandle w)
      \<and> set (activeAgentIds w) = dom (decisionIntervals w))"

section \<open>The decision procedure of the specification\<close>

text \<open>
  The four steps as the specification words them, for comparison with \<open>evaluate\<close>:
  the decision and the last action recorded after it.
\<close>

datatype wait_cause = InsufficientBalance | PriceWithinNormalRange

datatype spec_decision = SpecBuy number | SpecSell number | SpecWait wait_cause

definition evaluate_spec ::
  "number \<Rightarrow> number \<Rightarrow> number \<Rightarrow> last_action \<Rightarrow> number \<Rightarrow> number \<Rightarrow> spec_decision \<times> last_action" where
  "evaluate_spec buyT sellT minB lastA tickPrice walletBalance =
     (if walletBalance < minB then (SpecWait InsufficientBalance, lastA)
      else if tickPrice < buyT \<and> lastA \<noteq> LastBuy
        then (SpecBuy (min (10 * walletBalance / 100) (1 / 2)), LastBuy)
      else if tickPrice > sellT \<and> lastA \<noteq> LastSell
        then (SpecSell (1 / 10), LastSell)
      else (SpecWait PriceWithinNormalRange, lastA))"

text \<open>
  What a caller reads off a \<open>StrategyAction\<close>: the type, the trade side, the amount
  and, for a wait, which of the two texts the reason is.
\<close>

definition observe :: "StrategyAction \<Rightarrow> spec_decision option" where
  "observe a =
     (if a_type a = Trade \<and> a_action a = Some Buy then map_option SpecBuy (a_amount a)
      else if a_type a = Trade \<and> a_action a = Some Sell then map_option SpecSell (a_amount a)
      else if a_type a = Wait \<and> a_action a = None \<and> a_amount a = None then
        (if Lit ''Insufficient balance ('' \<in> set (a_reason a) then Some (SpecWait InsufficientBalance)
         else if Lit '') within normal range ('' \<in> set (a_reason a)
           then Some (SpecWait PriceWithinNormalRange)
         else None)
      else None)"

section \<open>The account check of the specification\<close>

text \<open>
  The condition under which the specification has a swap rejected for its accounts:
  the wallet is not in the table or, for a buy (the swap pays in SOL), its balance is
  less than the amount.
\<close>

definition accounts_invalid :: "wallets \<Rightarrow> string \<Rightarrow> SwapParams \<Rightarrow> bool" where
  "accounts_invalid ws pk params =
     (case ws pk of
        None \<Rightarrow> True
      | Some wallet \<Rightarrow> fromToken params = ''SOL'' \<and> balance wallet < amount params)"

definition invalid_accounts_error :: error where
  "invalid_accounts_error =
     SwapExecutionFailed (FailedToConstructSwapInstruction InvalidAccountsForSwap)"

section \<open>Sample data\<close>

text \<open>The key of 32 zero bytes (the system program's address) and a table with one wallet of 1 SOL.\<close>

definition sample_key :: string where
  "sample_key = ''11111111111111111111111111111111''"

definition sample_wallets :: wallets where
  "sample_wallets =
     [sample_key \<mapsto> \<lparr> publicKey = sample_key, createdAt = 0, balance = 1, tokenBalances = [] \<rparr>]"

definition buy_params :: "number \<Rightarrow> SwapParams" where
  "buy_params amt = \<lparr> fromToken = ''SOL'', toToken = ''TOKEN'', amount = amt, slippage = 1 \<rparr>"

definition sell_params :: "number \<Rightarrow> SwapParams" where
  "sell_params amt = \<lparr> fromToken = ''TOKEN'', toToken = ''SOL'', amount = amt, slippage = 1 \<rparr>"

section \<open>Sample runs\<close>

definition default_strategy :: AgentStrategy where
  "default_strategy = \<lparr> s_type = SimpleTrader, parameters = no_parameters \<rparr>"

definition inverted_strategy :: AgentStrategy where
  "inverted_strategy =
     \<lparr> s_type = SimpleTrader,
       parameters = \<lparr> p_buyThreshold = Some 110, p_sellThreshold = Some 90, p_minBalance = None \<rparr> \<rparr>"

text \<open>A tick at price 85, a chain that answers, and a wallet that holds 1 SOL on the chain.\<close>

definition low_env :: cycle_env where
  "low_env =
     \<lparr> tick = \<lparr> m_timestamp = 0, price = 85, volume = 1000, trend = Down \<rparr>,
       clock = 0, latestBlockhash = Inr ''hash'', chain = Inr (1, []) \<rparr>"

text \<open>One agent with the default strategy is created and its wallet is funded with 1 SOL.\<close>

definition funded_world :: world where
  "funded_world =
     perform (RefreshWallet sample_key 1 [])
       (perform (CreateAgent sample_key None ''agent_1'' 0 default_strategy) initial_world)"

text \<open>
  The agent is started, and the first cycle, suspended by then, goes on to its end in
  three turns: it decides, it trades, it writes the balances. Then the timer fires and
  the cycle it starts goes on in the same way.
\<close>

definition after_first_cycle :: world where
  "after_first_cycle =
     perform (Resume 0 low_env) (perform (Resume 0 low_env) (perform (Resume 0 low_env)
       (perform (StartAgent ''agent_1'' 0) funded_world)))"

definition after_second_cycle :: world where
  "after_second_cycle =
     perform (Resume 0 low_env) (perform (Resume 0 low_env) (perform (Resume 0 low_env)
       (perform (IntervalFires 1) after_first_cycle)))"

text \<open>
  \<open>deleteAgent\<close> is called for the running agent and, while it is suspended at its
  \<open>await\<close>, \<open>startAgent\<close> for the same id; then \<open>deleteAgent\<close> goes on.
\<close>

definition restarted_while_deleting :: world where
  "restarted_while_deleting =
     perform (StartAgent ''agent_1'' 0) (perform (DeleteAgent ''agent_1'' 0) after_second_cycle)"

definition deleted_after_restart :: world where
  "deleted_after_restart = perform (Resume 0 low_env) restarted_while_deleting"

text \<open>
  Three agents with the default strategy and empty wallets are created and started;
  each first cycle waits for lack of balance.
\<close>

definition key_2 :: string where
  "key_2 = ''11111111111111111111111111111112''"

definition key_3 :: string where
  "key_3 = ''11111111111111111111111111111113''"

definition three_agents_active :: world where
  "three_agents_active =
     foldl (\<lambda>w ev. perform ev w) initial_world
       [CreateAgent sample_key None ''agent_1'' 0 default_strategy,
        CreateAgent key_2 None ''agent_2'' 0 default_strategy,
        CreateAgent key_3 None ''agent_3'' 0 default_strategy,
        StartAgent ''agent_1'' 0, Resume 0 low_env,
        StartAgent ''agent_2'' 0, Resume 0 low_env,
        StartAgent ''agent_3'' 0, Resume 0 low_env]"

text \<open>
  \<open>stopAllAgents\<close> is called and, while it is suspended after its first turn,
  \<open>stopAgent\<close> and \<open>deleteAgent\<close> for the second agent; its second turn is next.
\<close>

definition stop_all_begun :: world where
  "stop_all_begun = perform (StopAllAgents 5) three_agents_active"

definition second_agent_gone :: world where
  "second_agent_gone =
     perform (DeleteAgent ''agent_2'' 5) (perform (StopAgent ''agent_2'' 5) stop_all_begun)"

definition stop_all_failed :: world where
  "stop_all_failed = perform (Resume 0 low_env) second_agent_gone"

text \<open>What these runs log, and the states they pass through, written out.\<close>

definition buy_text :: message where
  "buy_text = [Lit ''Price ('', Num 85, Lit '') below buy threshold ('', Num 90,
               Lit ''). Buying '', Fixed4 (1 / 10), Lit '' SOL worth of tokens.'']"

definition created_entry :: AgentActivity where
  "created_entry =
     \<lparr> timestamp = 0, action = ''created'',
       decision = [Lit ''Agent created with '', Lit ''simple-trader'', Lit '' strategy''],
       transactionSignature = None, result = Success \<rparr>"

definition started_entry :: AgentActivity where
  "started_entry =
     \<lparr> timestamp = 0, action = ''started'',
       decision = [Lit ''Agent activated and beginning autonomous operations''],
       transactionSignature = None, result = Success \<rparr>"

definition stopped_entry :: "nat \<Rightarrow> AgentActivity" where
  "stopped_entry now =
     \<lparr> timestamp = now, action = ''stopped'', decision = [Lit ''Agent deactivated''],
       transactionSignature = None, result = Success \<rparr>"

definition buy_entry :: AgentActivity where
  "buy_entry =
     \<lparr> timestamp = 0, action = ''trade'', decision = buy_text,
       transactionSignature = Some [Lit ''mock_swap_'', Num 0], result = Success \<rparr>"

definition waiting_entry :: AgentActivity where
  "waiting_entry =
     \<lparr> timestamp = 0, action = ''wait'',
       decision = [Lit ''Insufficient balance ('', Fixed4 0,
                   Lit '' SOL). Minimum required: '', Num (1 / 10), Lit '' SOL''],
       transactionSignature = None, result = Success \<rparr>"

definition trader :: "agent_status \<Rightarrow> AgentActivity list \<Rightarrow> Agent" where
  "trader st entries =
     \<lparr> agent_id = ''agent_1'', walletPublicKey = sample_key, strategy = default_strategy,
       status = st, activityLog = entries \<rparr>"

definition running_world :: "AgentActivity list \<Rightarrow> world" where
  "running_world entries =
     \<lparr> agents = [''agent_1'' \<mapsto> trader Active entries],
       activeAgentIds = [''agent_1''], decisionIntervals = [''agent_1'' \<mapsto> 1],
       runningIntervals = [1 \<mapsto> ''agent_1''],
       nextIntervalHandle = 2, walletTable = sample_wallets, suspended = [] \<rparr>"

definition idle_agent :: "string \<Rightarrow> string \<Rightarrow> agent_status \<Rightarrow> AgentActivity list \<Rightarrow> Agent" where
  "idle_agent agentId key st later =
     \<lparr> agent_id = agentId, walletPublicKey = key, strategy = default_strategy,
       status = st, activityLog = [created_entry, started_entry, waiting_entry] @ later \<rparr>"

definition empty_wallet :: "string \<Rightarrow> WalletInfo" where
  "empty_wallet key = \<lparr> publicKey = key, createdAt = 0, balance = 0, tokenBalances = [] \<rparr>"

definition three_wallets :: wallets where
  "three_wallets =
     [sample_key \<mapsto> empty_wallet sample_key, key_2 \<mapsto> empty_wallet key_2,
      key_3 \<mapsto> empty_wallet key_3]"

section \<open>Properties of the strategy\<close>

lemma tenth_exists: "\<exists>z::rat. z * 10 = 1"
  by (rule exI [of _ "1 / 10"]) simp

text \<open>
  One instance evaluated twice in a row never answers with two buys: the guard on
  \<open>lastAction\<close> works as long as the instance is kept.
\<close>

lemma evaluate_debounces:
  "a_action (fst (evaluate this c1 b1)) = Some Buy \<Longrightarrow>
   a_action (fst (evaluate (snd (evaluate this c1 b1)) c2 b2)) \<noteq> Some Buy"
  by (auto simp add: evaluate_def Let_def split: if_splits)

text \<open>
  Claim C8. For every strategy instance, tick and wallet balance, the action that
  \<open>evaluate\<close> returns is the decision of the four-step procedure of the specification
  (insufficient balance first, then buy with amount min(10% of the balance, 0.5), then
  sell with amount 0.1, else wait for a price within the normal range), the last action
  it records is the one the procedure records, and the thresholds are left as they
  were. In particular a price that is below the buy threshold and above the sell
  threshold is answered with a buy.
\<close>

theorem evaluate_refines_spec:
  "observe (fst (evaluate this c b))
     = Some (fst (evaluate_spec (buyThreshold this) (sellThreshold this) (minBalance this)
                    (lastAction this) (price c) b))
   \<and> snd (evaluate this c b)
     = this\<lparr> lastAction := snd (evaluate_spec (buyThreshold this) (sellThreshold this)
                                 (minBalance this) (lastAction this) (price c) b) \<rparr>
   \<and> (minBalance this \<le> b \<and> price c < buyThreshold this \<and> sellThreshold this < price c
        \<and> lastAction this \<noteq> LastBuy
      \<longrightarrow> a_action (fst (evaluate this c b)) = Some Buy)"
  by (auto simp add: evaluate_def evaluate_spec_def observe_def Let_def tenth_exists)

theorem evaluate_refines_spec_witness:
  "observe (fst (evaluate \<lparr> buyThreshold = 90, sellThreshold = 80, minBalance = 1 / 10,
                           lastAction = LastWait \<rparr>
                  \<lparr> m_timestamp = 0, price = 85, volume = 1000, trend = Down \<rparr> 1))
     = Some (SpecBuy (1 / 10))
   \<and> a_action (fst (evaluate \<lparr> buyThreshold = 90, sellThreshold = 80, minBalance = 1 / 10,
                              lastAction = LastWait \<rparr>
                     \<lparr> m_timestamp = 0, price = 85, volume = 1000, trend = Down \<rparr> 1))
     = Some Buy"
  using evaluate_refines_spec
    [of "\<lparr> buyThreshold = 90, sellThreshold = 80, minBalance = 1 / 10, lastAction = LastWait \<rparr>"
        "\<lparr> m_timestamp = 0, price = 85, volume = 1000, trend = Down \<rparr>" 1]
  by (simp add: evaluate_spec_def)

text \<open>
  Claim C10. A strategy parameter given as 0 is replaced by its default, exactly as
  an absent one is: the constructor builds the same instance for \<open>buyThreshold = 0\<close>
  as for no \<open>buyThreshold\<close> (threshold 90), and likewise for \<open>sellThreshold\<close> (110)
  and \<open>minBalance\<close> (0.1). So an instance configured with \<open>minBalance = 0\<close> still
  answers any balance below 0.1 with a wait for insufficient balance.
\<close>

theorem zero_parameter_takes_default:
  "new_SimpleTraderStrategy (ps\<lparr> p_buyThreshold := Some 0 \<rparr>)
     = new_SimpleTraderStrategy (ps\<lparr> p_buyThreshold := None \<rparr>)
   \<and> buyThreshold (new_SimpleTraderStrategy (ps\<lparr> p_buyThreshold := Some 0 \<rparr>)) = 90
   \<and> new_SimpleTraderStrategy (ps\<lparr> p_sellThreshold := Some 0 \<rparr>)
     = new_SimpleTraderStrategy (ps\<lparr> p_sellThreshold := None \<rparr>)
   \<and> sellThreshold (new_SimpleTraderStrategy (ps\<lparr> p_sellThreshold := Some 0 \<rparr>)) = 110
   \<and> new_SimpleTraderStrategy (ps\<lparr> p_minBalance := Some 0 \<rparr>)
     = new_SimpleTraderStrategy (ps\<lparr> p_minBalance := None \<rparr>)
   \<and> minBalance (new_SimpleTraderStrategy (ps\<lparr> p_minBalance := Some 0 \<rparr>)) = 1 / 10
   \<and> (b < 1 / 10 \<longrightarrow>
        observe (fst (evaluate (new_SimpleTraderStrategy (ps\<lparr> p_minBalance := Some 0 \<rparr>)) c b))
          = Some (SpecWait InsufficientBalance))"
  by (simp add: new_SimpleTraderStrategy_def or_default_def evaluate_def observe_def)

theorem zero_parameter_takes_default_witness:
  "(1 / 20 :: rat) < 1 / 10
   \<and> minBalance (new_SimpleTraderStrategy (no_parameters\<lparr> p_minBalance := Some 0 \<rparr>)) = 1 / 10
   \<and> observe (fst (evaluate (new_SimpleTraderStrategy (no_parameters\<lparr> p_minBalance := Some 0 \<rparr>))
                     \<lparr> m_timestamp = 0, price = 85, volume = 1000, trend = Down \<rparr> (1 / 20)))
       = Some (SpecWait InsufficientBalance)"
  using zero_parameter_takes_default
    [of no_parameters "1 / 20" "\<lparr> m_timestamp = 0, price = 85, volume = 1000, trend = Down \<rparr>"]
  by (simp add: new_SimpleTraderStrategy_def or_default_def no_parameters_def)

section \<open>Properties of the trade executor\<close>

lemma sample_key_ok: "new_PublicKey sample_key = Inr sample_key"
  by (simp add: sample_key_def new_PublicKey_def bs58_decoded_length_def base58_alphabet_def)

lemma short_key_rejected: "new_PublicKey ''abc'' = Inl InvalidPublicKeyInput"
  by (simp add: new_PublicKey_def bs58_decoded_length_def base58_alphabet_def)

lemma validateAccounts_iff: "validateAccounts ws pk params \<longleftrightarrow> \<not> accounts_invalid ws pk params"
  by (simp add: validateAccounts_def validateAccounts_try_def getWallet_def accounts_invalid_def
      split: option.splits)

lemma executeSwap_cases:
  "executeSwap bh now params pk ws =
     (case new_PublicKey pk of
        Inl e \<Rightarrow> (Inl (SwapExecutionFailed (FailedToConstructSwapInstruction e)), ws)
      | Inr k \<Rightarrow>
          if accounts_invalid ws pk params then (Inl invalid_accounts_error, ws)
          else (case bh of
                  Inl m \<Rightarrow> (Inl (SwapExecutionFailed (External m)), ws)
                | Inr h \<Rightarrow>
                    (Inr [Lit ''mock_swap_'', Num (of_nat now)],
                     updateBalancesAfterSwap pk params (getWalletBalance ws pk) ws)))"
  by (simp add: executeSwap_def executeSwap_try_def constructSwapInstruction_def
      constructSwapInstruction_try_def validateAccounts_iff invalid_accounts_error_def Let_def
      split: sum.splits)

text \<open>
  Claim C4, as the code has it. For every swap whose wallet key is a well-formed
  public key, the swap fails with the invalid-accounts error exactly when the wallet is
  not in the table or, for a buy, its balance is less than the amount. A key that is
  not well formed fails earlier, with the error of the key and whether or not the
  wallet exists. On every failure the wallet table is the one before the call.
\<close>

theorem executeSwap_failure:
  "(\<not> isl (new_PublicKey pk) \<longrightarrow>
      (fst (executeSwap bh now params pk ws) = Inl invalid_accounts_error
       \<longleftrightarrow> accounts_invalid ws pk params))
   \<and> (\<forall>e. new_PublicKey pk = Inl e \<longrightarrow>
        executeSwap bh now params pk ws
          = (Inl (SwapExecutionFailed (FailedToConstructSwapInstruction e)), ws))
   \<and> (isl (fst (executeSwap bh now params pk ws)) \<longrightarrow> snd (executeSwap bh now params pk ws) = ws)"
  by (auto simp add: executeSwap_cases invalid_accounts_error_def split: sum.splits)

theorem executeSwap_failure_witness:
  "\<not> isl (new_PublicKey sample_key)
   \<and> accounts_invalid sample_wallets sample_key (buy_params 2)
   \<and> executeSwap (Inr ''hash'') 7 (buy_params 2) sample_key sample_wallets
       = (Inl invalid_accounts_error, sample_wallets)
   \<and> new_PublicKey ''abc'' = Inl InvalidPublicKeyInput
   \<and> executeSwap (Inr ''hash'') 7 (buy_params 2) ''abc'' sample_wallets
       = (Inl (SwapExecutionFailed (FailedToConstructSwapInstruction InvalidPublicKeyInput)),
          sample_wallets)"
proof -
  have a: "accounts_invalid sample_wallets sample_key (buy_params 2)"
    by (simp add: accounts_invalid_def sample_wallets_def buy_params_def)
  have k: "\<not> isl (new_PublicKey sample_key)"
    by (simp add: sample_key_ok)
  from executeSwap_failure [of sample_key "Inr ''hash''" 7 "buy_params 2" sample_wallets]
  show ?thesis
    using a k short_key_rejected
      executeSwap_failure [of "''abc''" "Inr ''hash''" 7 "buy_params 2" sample_wallets]
    by (cases "executeSwap (Inr ''hash'') 7 (buy_params 2) sample_key sample_wallets") auto
qed

text \<open>
  Claim C4 as stated fails: the wallet \<open>abc\<close> does not exist, yet the swap does not
  fail with the invalid-accounts error but with the error of the malformed key.
\<close>

theorem executeSwap_malformed_key_counterexample:
  "accounts_invalid Map.empty ''abc'' (sell_params (1 / 10))
   \<and> fst (executeSwap (Inr ''hash'') 7 (sell_params (1 / 10)) ''abc'' Map.empty)
       \<noteq> Inl invalid_accounts_error
   \<and> executeSwap (Inr ''hash'') 7 (sell_params (1 / 10)) ''abc'' Map.empty
       = (Inl (SwapExecutionFailed (FailedToConstructSwapInstruction InvalidPublicKeyInput)),
          Map.empty)"
  by (simp add: executeSwap_cases short_key_rejected accounts_invalid_def
      invalid_accounts_error_def)

text \<open>
  Claim C5. When a trade succeeds, a buy has replaced the wallet's entry by the same
  entry with the balance lowered by exactly the amount (the amount was at most the
  balance), and every other entry and field is as before; any other trade has left
  the whole table as it was. A sell on an existing wallet with a well-formed key
  succeeds whenever the block hash is answered, and changes nothing.
\<close>

theorem executeTrade_success:
  "(executeTrade bh now pk act amt ws = (Inr sg, ws') \<longrightarrow>
      (if act = Buy
       then \<exists>wallet. ws pk = Some wallet \<and> amt \<le> balance wallet
              \<and> ws' = ws(pk \<mapsto> wallet\<lparr> balance := balance wallet - amt \<rparr>)
       else ws' = ws))
   \<and> (\<not> isl (new_PublicKey pk) \<and> ws pk = Some wallet \<longrightarrow>
        executeTrade (Inr h) now pk Sell amt ws = (Inr [Lit ''mock_swap_'', Num (of_nat now)], ws))"
  by (auto simp add: executeTrade_def executeSwap_cases accounts_invalid_def
      updateBalancesAfterSwap_def updateBalance_def getWalletBalance_def getWallet_def or_default_def
      split: sum.splits if_splits option.splits)

theorem executeTrade_success_witness:
  "executeTrade (Inr ''hash'') 7 sample_key Buy (1 / 10) sample_wallets
     = (Inr [Lit ''mock_swap_'', Num 7],
        sample_wallets(sample_key \<mapsto>
          \<lparr> publicKey = sample_key, createdAt = 0, balance = 9 / 10, tokenBalances = [] \<rparr>))
   \<and> executeTrade (Inr ''hash'') 7 sample_key Sell (1 / 10) sample_wallets
     = (Inr [Lit ''mock_swap_'', Num 7], sample_wallets)"
  using executeTrade_success
    [of "Inr ''hash''" 7 sample_key Buy "1 / 10" sample_wallets "[Lit ''mock_swap_'', Num 7]"
        "snd (executeTrade (Inr ''hash'') 7 sample_key Buy (1 / 10) sample_wallets)"
        "\<lparr> publicKey = sample_key, createdAt = 0, balance = 1, tokenBalances = [] \<rparr>" "''hash''"]
  by (simp add: executeTrade_def executeSwap_cases sample_key_ok accounts_invalid_def
      sample_wallets_def updateBalancesAfterSwap_def updateBalance_def getWalletBalance_def
      getWallet_def or_default_def)

text \<open>
  Claim C6. A buy whose amount exceeds the wallet's balance is rejected with the table
  untouched; a buy that succeeds had an amount of at most the balance, so the balance
  it leaves, the old balance less the amount, is not negative; and whatever the
  outcome of a swap, if no wallet had a negative balance before it, none has after it.
\<close>

theorem buy_never_overdraws:
  "executeSwap bh now params pk ws = (r, ws') \<Longrightarrow>
   (\<forall>w0. ws pk = Some w0 \<and> fromToken params = ''SOL'' \<and> balance w0 < amount params
        \<longrightarrow> isl r \<and> ws' = ws)
   \<and> (fromToken params = ''SOL'' \<and> \<not> isl r \<longrightarrow>
        (\<exists>w0. ws pk = Some w0 \<and> amount params \<le> balance w0 \<and> 0 \<le> balance w0 - amount params
           \<and> ws' = ws(pk \<mapsto> w0\<lparr> balance := balance w0 - amount params \<rparr>)))
   \<and> ((\<forall>k w0. ws k = Some w0 \<longrightarrow> 0 \<le> balance w0)
        \<longrightarrow> (\<forall>k w1. ws' k = Some w1 \<longrightarrow> 0 \<le> balance w1))"
  by (auto simp add: executeSwap_cases accounts_invalid_def
      updateBalancesAfterSwap_def updateBalance_def getWalletBalance_def getWallet_def or_default_def
      split: sum.splits if_splits option.splits)

theorem buy_never_overdraws_witness:
  "snd (executeSwap (Inr ''hash'') 7 (buy_params (1 / 10)) sample_key sample_wallets) sample_key
     = Some \<lparr> publicKey = sample_key, createdAt = 0, balance = 9 / 10, tokenBalances = [] \<rparr>
   \<and> executeSwap (Inr ''hash'') 7 (buy_params 2) sample_key sample_wallets
     = (Inl invalid_accounts_error, sample_wallets)"
  using buy_never_overdraws
    [of "Inr ''hash''" 7 "buy_params (1 / 10)" sample_key sample_wallets
        "fst (executeSwap (Inr ''hash'') 7 (buy_params (1 / 10)) sample_key sample_wallets)"
        "snd (executeSwap (Inr ''hash'') 7 (buy_params (1 / 10)) sample_key sample_wallets)"]
    buy_never_overdraws
    [of "Inr ''hash''" 7 "buy_params 2" sample_key sample_wallets
        "fst (executeSwap (Inr ''hash'') 7 (buy_params 2) sample_key sample_wallets)"
        "snd (executeSwap (Inr ''hash'') 7 (buy_params 2) sample_key sample_wallets)"]
  by (simp add: executeSwap_cases sample_key_ok accounts_invalid_def sample_wallets_def
      buy_params_def updateBalancesAfterSwap_def updateBalance_def getWalletBalance_def
      getWallet_def or_default_def)

section \<open>Properties of the controller: what each call changes\<close>

text \<open>An append to a log: the agent table afterwards, and the fields it leaves alone.\<close>

lemma slice_last: "slice (- 100) xs = drop (length xs - 100) xs"
  by (simp add: slice_def Let_def max_def nat_diff_distrib')

lemma logActivity_agents:
  "agents (logActivity agentId activity w) =
     (case agents w agentId of
        None \<Rightarrow> agents w
      | Some agent \<Rightarrow>
          (agents w)(agentId \<mapsto> agent\<lparr> activityLog :=
             drop (length (activityLog agent) + 1 - 100) (activityLog agent @ [activity]) \<rparr>))"
  by (auto simp add: logActivity_def Let_def slice_last split: option.splits)

lemma logActivity_fields [simp]:
  "activeAgentIds (logActivity agentId activity w) = activeAgentIds w"
  "decisionIntervals (logActivity agentId activity w) = decisionIntervals w"
  "runningIntervals (logActivity agentId activity w) = runningIntervals w"
  "nextIntervalHandle (logActivity agentId activity w) = nextIntervalHandle w"
  "walletTable (logActivity agentId activity w) = walletTable w"
  "suspended (logActivity agentId activity w) = suspended w"
  by (simp_all add: logActivity_def Let_def split: option.splits)

lemma status_of_logActivity [simp]:
  "status_of (logActivity agentId activity w) = status_of w"
  by (rule ext) (simp add: status_of_def logActivity_agents split: option.splits)

lemma dom_agents_logActivity [simp]:
  "dom (agents (logActivity agentId activity w)) = dom (agents w)"
  by (auto simp add: logActivity_agents split: option.splits if_splits)

lemma logActivity_walletTable:
  "logActivity agentId activity (w\<lparr> walletTable := ws \<rparr>)
     = (logActivity agentId activity w)\<lparr> walletTable := ws \<rparr>"
  by (simp add: logActivity_def Let_def split: option.splits)

lemma logs_bounded_logActivity:
  "logs_bounded w \<Longrightarrow> logs_bounded (logActivity agentId activity w)"
  by (auto simp add: logs_bounded_def logActivity_agents split: option.splits if_splits)

text \<open>Joining the suspended tasks changes no other field.\<close>

lemma settle_fields [simp]:
  "agents (settle r) = agents (snd r)"
  "activeAgentIds (settle r) = activeAgentIds (snd r)"
  "decisionIntervals (settle r) = decisionIntervals (snd r)"
  "runningIntervals (settle r) = runningIntervals (snd r)"
  "nextIntervalHandle (settle r) = nextIntervalHandle (snd r)"
  "walletTable (settle r) = walletTable (snd r)"
  by (simp_all add: settle_def split: outcome.splits)

lemma status_of_settle [simp]: "status_of (settle r) = status_of (snd r)"
  by (rule ext) (simp add: status_of_def)

lemma status_of_wallet [simp]: "status_of (w\<lparr> walletTable := ws \<rparr>) = status_of w"
  by (rule ext) (simp add: status_of_def)

lemma status_of_suspended [simp]: "status_of (w\<lparr> suspended := ts \<rparr>) = status_of w"
  by (rule ext) (simp add: status_of_def)

text \<open>
  A turn of a decision cycle changes nothing, or appends one entry, or rewrites the
  wallet table, or does both.
\<close>

lemma cycle_resumed_shape:
  "snd (executeDecisionCycle_resumed agentId agent found env w) = w
   \<or> (\<exists>activity. snd (executeDecisionCycle_resumed agentId agent found env w)
                      = logActivity agentId activity w)"
  unfolding executeDecisionCycle_resumed_def executeDecisionCycle_resumed_try_def
  by (auto simp add: Let_def split: option.splits)

lemma cycle_traded_shape:
  "\<exists>activity ws. snd (executeDecisionCycle_traded agentId agent act env w)
         = logActivity agentId activity (w\<lparr> walletTable := ws \<rparr>)"
  unfolding executeDecisionCycle_traded_def
  by (auto split: sum.splits prod.splits)

lemma set_set_add [simp]: "set (set_add x xs) = insert x (set xs)"
  by (auto simp add: set_add_def)

lemma set_set_delete [simp]: "set (set_delete x xs) = set xs - {x}"
  by (auto simp add: set_delete_def)

text \<open>What a start and a stop that return have done to status, Set and timers.\<close>

lemma startAgent_result:
  assumes "startAgent agentId now w = Inr w'"
  shows "\<exists>agent. agents w agentId = Some agent \<and>
     (if status agent = Active then w' = w
      else status_of w' = (status_of w)(agentId \<mapsto> Active)
         \<and> activeAgentIds w' = set_add agentId (activeAgentIds w)
         \<and> decisionIntervals w' = (decisionIntervals w)(agentId \<mapsto> nextIntervalHandle w)
         \<and> runningIntervals w' = (runningIntervals w)(nextIntervalHandle w \<mapsto> agentId)
         \<and> nextIntervalHandle w' = Suc (nextIntervalHandle w)
         \<and> dom (agents w') = dom (agents w))"
proof (cases "agents w agentId")
  case None
  with assms show ?thesis by (simp add: startAgent_def)
next
  case (Some agent)
  show ?thesis
  proof (cases "status agent = Active")
    case True
    with assms Some show ?thesis by (simp add: startAgent_def)
  next
    case False
    define w3 where
      "w3 = (logActivity agentId
               \<lparr> timestamp = now, action = ''started'',
                 decision = [Lit ''Agent activated and beginning autonomous operations''],
                 transactionSignature = None, result = Success \<rparr>
               (w\<lparr> agents := (agents w)(agentId \<mapsto> agent\<lparr> status := Active \<rparr>),
                   activeAgentIds := set_add agentId (activeAgentIds w) \<rparr>))
            \<lparr> runningIntervals := (runningIntervals w)(nextIntervalHandle w \<mapsto> agentId),
              nextIntervalHandle := nextIntervalHandle w + 1,
              decisionIntervals := (decisionIntervals w)(agentId \<mapsto> nextIntervalHandle w) \<rparr>"
    have w': "w' = settle (executeDecisionCycle agentId w3, w3)"
      using assms Some False by (simp add: startAgent_def startDecisionLoop_def Let_def w3_def)
    have "status_of w3 = (status_of w)(agentId \<mapsto> Active)"
      by (rule ext) (simp add: w3_def status_of_def logActivity_agents)
    moreover have "activeAgentIds w3 = set_add agentId (activeAgentIds w)"
      "decisionIntervals w3 = (decisionIntervals w)(agentId \<mapsto> nextIntervalHandle w)"
      "runningIntervals w3 = (runningIntervals w)(nextIntervalHandle w \<mapsto> agentId)"
      "nextIntervalHandle w3 = Suc (nextIntervalHandle w)"
      by (simp_all add: w3_def)
    moreover have "dom (agents w3) = dom (agents w)"
      using Some by (auto simp add: w3_def)
    ultimately show ?thesis using Some False by (simp add: w')
  qed
qed

lemma stopAgent_result:
  "stopAgent agentId now w = Inr w' \<Longrightarrow>
   agents w agentId \<noteq> None
   \<and> status_of w' = (status_of w)(agentId \<mapsto> Stopped)
   \<and> dom (agents w') = dom (agents w)
   \<and> activeAgentIds w' = set_delete agentId (activeAgentIds w)
   \<and> decisionIntervals w' = (decisionIntervals w)(agentId := None)
   \<and> runningIntervals w' =
       (case decisionIntervals w agentId of
          None \<Rightarrow> runningIntervals w
        | Some interval \<Rightarrow> (runningIntervals w)(interval := None))
   \<and> nextIntervalHandle w' = nextIntervalHandle w
   \<and> suspended w' = suspended w"
  by (auto simp add: stopAgent_def Let_def status_of_def logActivity_agents fun_eq_iff
      split: option.splits if_splits)

lemma stopAgent_throws:
  "stopAgent agentId now w = Inl e \<longleftrightarrow> agents w agentId = None \<and> e = AgentNotFound agentId"
  by (auto simp add: stopAgent_def Let_def split: option.splits)

lemma createAgent_result:
  assumes "createAgent newKey storeKey agentId now strat w = Inr (agent, w')"
  shows "storeKey = None
   \<and> status_of w' = (status_of w)(agentId \<mapsto> Stopped)
   \<and> activeAgentIds w' = activeAgentIds w
   \<and> decisionIntervals w' = decisionIntervals w
   \<and> runningIntervals w' = runningIntervals w
   \<and> nextIntervalHandle w' = nextIntervalHandle w
   \<and> suspended w' = suspended w
   \<and> strategy agent = strat \<and> status agent = Stopped \<and> agents w' agentId = Some agent"
  using assms
  by (auto simp add: createAgent_def createWallet_def Let_def status_of_def logActivity_agents
      fun_eq_iff split: option.splits sum.splits prod.splits)

section \<open>Properties of the controller: the activity logs\<close>

lemma logs_bounded_agents: "agents w' = agents w \<Longrightarrow> logs_bounded w' = logs_bounded w"
  by (simp add: logs_bounded_def)

lemma logs_bounded_fields [simp]:
  "logs_bounded (w\<lparr> walletTable := ws \<rparr>) = logs_bounded w"
  "logs_bounded (w\<lparr> activeAgentIds := ids \<rparr>) = logs_bounded w"
  "logs_bounded (w\<lparr> decisionIntervals := di \<rparr>) = logs_bounded w"
  "logs_bounded (w\<lparr> runningIntervals := ri \<rparr>) = logs_bounded w"
  "logs_bounded (w\<lparr> nextIntervalHandle := n \<rparr>) = logs_bounded w"
  "logs_bounded (w\<lparr> suspended := ts \<rparr>) = logs_bounded w"
  by (simp_all add: logs_bounded_def)

lemma logs_bounded_settle [simp]: "logs_bounded (settle r) = logs_bounded (snd r)"
  by (simp add: logs_bounded_def)

lemma logs_bounded_initial: "logs_bounded initial_world"
  by (simp add: logs_bounded_def initial_world_def)

lemma logs_bounded_cycle_resumed:
  assumes b: "logs_bounded w"
  shows "logs_bounded (snd (executeDecisionCycle_resumed agentId agent found env w))"
  using cycle_resumed_shape [of agentId agent found env w] logs_bounded_logActivity [OF b, of agentId] b
  by auto

lemma logs_bounded_cycle_traded:
  assumes b: "logs_bounded w"
  shows "logs_bounded (snd (executeDecisionCycle_traded agentId agent act env w))"
proof -
  from cycle_traded_shape [of agentId agent act env w]
  obtain activity ws where e: "snd (executeDecisionCycle_traded agentId agent act env w)
         = logActivity agentId activity (w\<lparr> walletTable := ws \<rparr>)" by blast
  from b have "logs_bounded (w\<lparr> walletTable := ws \<rparr>)" by simp
  from logs_bounded_logActivity [OF this, of agentId activity]
  show ?thesis unfolding e .
qed

lemma logs_bounded_cycle_updated:
  "logs_bounded w \<Longrightarrow> logs_bounded (snd (executeDecisionCycle_updated pk env w))"
  by (simp add: executeDecisionCycle_updated_def)

lemma logs_bounded_set_status:
  "logs_bounded w \<Longrightarrow> agents w agentId = Some agent \<Longrightarrow>
   agents w' = (agents w)(agentId \<mapsto> agent\<lparr> status := s \<rparr>) \<Longrightarrow> logs_bounded w'"
  by (auto simp add: logs_bounded_def)

lemma logs_bounded_startAgent:
  assumes "logs_bounded w" and "startAgent agentId now w = Inr w'"
  shows "logs_bounded w'"
proof (cases "agents w agentId")
  case None
  with assms show ?thesis by (simp add: startAgent_def)
next
  case (Some agent)
  show ?thesis
  proof (cases "status agent = Active")
    case True
    with assms Some show ?thesis by (simp add: startAgent_def)
  next
    case False
    let ?w1 = "w\<lparr> agents := (agents w)(agentId \<mapsto> agent\<lparr> status := Active \<rparr>),
                  activeAgentIds := set_add agentId (activeAgentIds w) \<rparr>"
    have "logs_bounded ?w1"
      by (rule logs_bounded_set_status [OF assms(1) Some]) simp
    then have "logs_bounded (logActivity agentId
               \<lparr> timestamp = now, action = ''started'',
                 decision = [Lit ''Agent activated and beginning autonomous operations''],
                 transactionSignature = None, result = Success \<rparr> ?w1)"
      by (rule logs_bounded_logActivity)
    then show ?thesis
      using assms(2) Some False
      by (auto simp add: startAgent_def startDecisionLoop_def Let_def)
  qed
qed

lemma logs_bounded_stopAgent:
  assumes "logs_bounded w" and "stopAgent agentId now w = Inr w'"
  shows "logs_bounded w'"
proof (cases "agents w agentId")
  case None
  with assms show ?thesis by (simp add: stopAgent_def)
next
  case (Some agent)
  define w1 where "w1 = (case decisionIntervals w agentId of
                       None \<Rightarrow> w
                     | Some interval \<Rightarrow>
                         w\<lparr> runningIntervals := (runningIntervals w)(interval := None),
                            decisionIntervals := (decisionIntervals w)(agentId := None) \<rparr>)"
  have a1: "agents w1 = agents w" by (simp add: w1_def split: option.splits)
  then have "logs_bounded w1" using assms(1) logs_bounded_agents [of w1 w] by simp
  then have "logs_bounded (w1\<lparr> agents := (agents w1)(agentId \<mapsto> agent\<lparr> status := Stopped \<rparr>),
                         activeAgentIds := set_delete agentId (activeAgentIds w1) \<rparr>)"
    by (rule logs_bounded_set_status [where agentId = agentId and agent = agent and s = Stopped])
       (simp_all add: a1 Some)
  then show ?thesis
    using assms(2) Some
    by (auto simp add: stopAgent_def Let_def w1_def intro: logs_bounded_logActivity)
qed

lemma logs_bounded_remove:
  "logs_bounded w \<Longrightarrow> logs_bounded (deleteAgent_rest agentId w)"
  by (auto simp add: logs_bounded_def deleteAgent_rest_def)

lemma logs_bounded_deleteAgent:
  "logs_bounded w \<Longrightarrow> logs_bounded (snd (deleteAgent agentId now w))"
  by (auto simp add: deleteAgent_def split: if_splits sum.splits
      intro: logs_bounded_remove logs_bounded_stopAgent)

lemma logs_bounded_stopAll_turn:
  "logs_bounded w \<Longrightarrow> logs_bounded (snd (stopAll_turn ids now w))"
  by (cases ids) (auto split: sum.splits intro: logs_bounded_stopAgent)

lemma logs_bounded_resume:
  "logs_bounded w \<Longrightarrow> logs_bounded (snd (resume t env w))"
  by (cases t)
     (auto intro: logs_bounded_remove logs_bounded_stopAll_turn logs_bounded_cycle_resumed
        logs_bounded_cycle_traded logs_bounded_cycle_updated)

lemma logs_bounded_createAgent:
  assumes "logs_bounded w" and "createAgent newKey storeKey agentId now strat w = Inr (agent, w')"
  shows "logs_bounded w'"
proof -
  let ?agent = "\<lparr> agent_id = agentId, walletPublicKey = newKey, strategy = strat,
                         status = Stopped, activityLog = [] \<rparr>"
  have "logs_bounded (w\<lparr> walletTable := ws, agents := (agents w)(agentId \<mapsto> ?agent) \<rparr>)" for ws
    using assms(1) by (auto simp add: logs_bounded_def)
  then show ?thesis
    using assms(2)
    by (auto simp add: createAgent_def createWallet_def Let_def
        split: option.splits sum.splits prod.splits intro: logs_bounded_logActivity)
qed

lemma logs_bounded_step: "logs_bounded w \<Longrightarrow> logs_bounded (snd (step ev w))"
proof (cases ev)
  case (Resume k env)
  assume "logs_bounded w"
  then have "logs_bounded (w\<lparr> suspended := take k (suspended w) @ drop (Suc k) (suspended w) \<rparr>)"
    by simp
  from logs_bounded_resume [OF this] Resume \<open>logs_bounded w\<close> show ?thesis by simp
qed (auto split: sum.splits option.splits simp add: stopAllAgents_def
      intro: logs_bounded_createAgent logs_bounded_startAgent logs_bounded_stopAgent
          logs_bounded_stopAll_turn logs_bounded_deleteAgent)

lemma logs_bounded_perform: "logs_bounded w \<Longrightarrow> logs_bounded (perform ev w)"
  by (simp add: perform_def logs_bounded_step)

lemma reachable_logs_bounded: "reachable w \<Longrightarrow> logs_bounded w"
  by (induction rule: reachable.induct) (auto intro: logs_bounded_initial logs_bounded_perform)

lemma logActivity_log:
  "agents w agentId = Some agent \<Longrightarrow>
   log_of (logActivity agentId activity w) agentId
     = drop (length (activityLog agent) + 1 - 100) (activityLog agent @ [activity])"
  by (simp add: log_of_def logActivity_agents)

lemma logActivity_keeps_newest:
  assumes "agents w agentId = Some agent"
  shows "suffix (log_of (logActivity agentId activity w) agentId) (activityLog agent @ [activity])"
    and "length (log_of (logActivity agentId activity w) agentId) = min 100 (length (activityLog agent) + 1)"
    and "last (log_of (logActivity agentId activity w) agentId) = activity"
  using assms by (auto simp add: logActivity_log suffix_drop)

text \<open>
  With status and schedule in agreement before it, a start that returns leaves the
  agent active with a running timer held for it, and a stop that returns leaves it
  stopped with no timer held and none running for it.
\<close>

lemma startAgent_schedules:
  assumes inv: "schedule_agrees w" and s: "startAgent agentId now w = Inr w'"
  shows "status_of w' agentId = Some Active
     \<and> (\<exists>interval. decisionIntervals w' agentId = Some interval
           \<and> runningIntervals w' interval = Some agentId)"
proof -
  from startAgent_result [OF s] obtain agent where
    ag: "agents w agentId = Some agent" and
    r: "if status agent = Active then w' = w
        else status_of w' = (status_of w)(agentId \<mapsto> Active)
           \<and> activeAgentIds w' = set_add agentId (activeAgentIds w)
           \<and> decisionIntervals w' = (decisionIntervals w)(agentId \<mapsto> nextIntervalHandle w)
           \<and> runningIntervals w' = (runningIntervals w)(nextIntervalHandle w \<mapsto> agentId)
           \<and> nextIntervalHandle w' = Suc (nextIntervalHandle w)
           \<and> dom (agents w') = dom (agents w)"
    by blast
  show ?thesis
  proof (cases "status agent = Active")
    case True
    with r ag have e: "w' = w" and st: "status_of w agentId = Some Active"
      by (simp_all add: status_of_def)
    from inv st obtain interval where i: "decisionIntervals w agentId = Some interval"
      unfolding schedule_agrees_def by auto
    with inv have "runningIntervals w interval = Some agentId"
      unfolding schedule_agrees_def by blast
    with e st i show ?thesis by simp
  next
    case False
    with r show ?thesis by simp
  qed
qed

lemma stopAgent_unschedules:
  assumes inv: "schedule_agrees w" and s: "stopAgent agentId now w = Inr w'"
  shows "status_of w' agentId = Some Stopped
     \<and> decisionIntervals w' agentId = None
     \<and> (\<forall>interval. runningIntervals w' interval \<noteq> Some agentId)"
proof -
  note R = stopAgent_result [OF s]
  from inv have two: "\<And>interval. runningIntervals w interval = Some agentId
                        \<Longrightarrow> decisionIntervals w agentId = Some interval"
    unfolding schedule_agrees_def by blast
  have "runningIntervals w' interval \<noteq> Some agentId" for interval
  proof
    assume a: "runningIntervals w' interval = Some agentId"
    show False
    proof (cases "decisionIntervals w agentId")
      case None
      with R a have "runningIntervals w interval = Some agentId" by simp
      from two [OF this] None show False by simp
    next
      case (Some i)
      with R a have "runningIntervals w interval = Some agentId" and "interval \<noteq> i"
        by (auto split: if_splits)
      with two [of interval] Some show False by simp
    qed
  qed
  with R show ?thesis by simp
qed

section \<open>Properties of the controller: stopping all agents\<close>

text \<open>
  A turn of the loop stops a registered agent and is suspended; it throws on an id that
  is not registered and changes nothing. Run with nothing in between, the turns stop
  every id when all are registered, and end at the first id that is not.
\<close>

lemma stopAll_turn_registered:
  assumes "agents w agentId \<noteq> None"
  shows "fst (stopAll_turn (agentId # rest) now w) = Suspended (StopAllRest rest now)
     \<and> status_of (snd (stopAll_turn (agentId # rest) now w)) agentId = Some Stopped
     \<and> (\<forall>k. k \<noteq> agentId \<longrightarrow>
           status_of (snd (stopAll_turn (agentId # rest) now w)) k = status_of w k)
     \<and> dom (agents (snd (stopAll_turn (agentId # rest) now w))) = dom (agents w)
     \<and> suspended (snd (stopAll_turn (agentId # rest) now w)) = suspended w"
proof -
  from assms obtain w1 where s: "stopAgent agentId now w = Inr w1"
    by (cases "stopAgent agentId now w") (auto simp add: stopAgent_throws)
  note R = stopAgent_result [OF s]
  from R s show ?thesis by simp
qed

lemma stopAll_turn_throws:
  "agents w bad = None \<Longrightarrow> stopAll_turn (bad # post) now w = (Failed (AgentNotFound bad), w)"
  by (simp add: stopAgent_def)

lemma stopAll_alone_Cons:
  "stopAll_alone (agentId # rest) now w =
     (case stopAgent agentId now w of
        Inl e \<Rightarrow> (Some e, w)
      | Inr w' \<Rightarrow> stopAll_alone rest now w')"
  by (simp split: sum.splits)

lemma stopAll_alone_all:
  "set ids \<subseteq> dom (agents w) \<Longrightarrow>
   fst (stopAll_alone ids now w) = None
   \<and> status_of (snd (stopAll_alone ids now w))
       = (\<lambda>k. if k \<in> set ids then Some Stopped else status_of w k)
   \<and> dom (agents (snd (stopAll_alone ids now w))) = dom (agents w)"
proof (induction ids arbitrary: w)
  case Nil
  then show ?case by simp
next
  case (Cons a ids)
  from Cons.prems obtain w1 where s: "stopAgent a now w = Inr w1"
    by (cases "stopAgent a now w") (auto simp add: stopAgent_throws)
  note R = stopAgent_result [OF s]
  from Cons.prems R have "set ids \<subseteq> dom (agents w1)" by auto
  from Cons.IH [OF this] R s show ?case
    unfolding stopAll_alone_Cons by (auto simp add: fun_eq_iff)
qed

lemma stopAll_alone_abort:
  assumes "set pre \<subseteq> dom (agents w)" and "agents w bad = None"
  shows "stopAll_alone (pre @ bad # post) now w
           = (Some (AgentNotFound bad), snd (stopAll_alone pre now w))"
  using assms
proof (induction pre arbitrary: w)
  case Nil
  then show ?case by (simp add: stopAgent_def)
next
  case (Cons a pre)
  from Cons.prems obtain w1 where s: "stopAgent a now w = Inr w1"
    by (cases "stopAgent a now w") (auto simp add: stopAgent_throws)
  note R = stopAgent_result [OF s]
  from Cons.prems R have "set pre \<subseteq> dom (agents w1)" "agents w1 bad = None" by auto
  from Cons.IH [OF this] s show ?case
    unfolding append_Cons stopAll_alone_Cons by simp
qed

section \<open>Properties of the controller: creation\<close>

lemma createAgent_accepts:
  "\<not> isl (createAgent newKey None agentId now strat w)"
  by (simp add: createAgent_def createWallet_def Let_def split: option.splits)

section \<open>The sample runs, evaluated\<close>

text \<open>The states the sample runs pass through, written out.\<close>

lemma funded_world_eq:
  "funded_world =
     \<lparr> agents = [''agent_1'' \<mapsto> trader Stopped [created_entry]],
       activeAgentIds = [], decisionIntervals = Map.empty, runningIntervals = Map.empty,
       nextIntervalHandle = 1, walletTable = sample_wallets, suspended = [] \<rparr>"
  by (simp add: funded_world_def perform_def settle_def createAgent_def createWallet_def Let_def
      logActivity_def initial_world_def default_strategy_def updateBalance_def
      updateTokenBalances_def sample_wallets_def trader_def created_entry_def)

lemma started_eq:
  "perform (StartAgent ''agent_1'' 0) funded_world
     = (running_world [created_entry, started_entry])
         \<lparr> suspended := [CycleRest ''agent_1'' (trader Active [created_entry, started_entry]) True] \<rparr>"
  by (simp add: funded_world_eq perform_def settle_def startAgent_def startDecisionLoop_def
      executeDecisionCycle_def getWallet_def logActivity_def Let_def set_add_def running_world_def
      trader_def started_entry_def sample_wallets_def numeral_2_eq_2)

lemma low_cycle:
  "length entries < 100 \<Longrightarrow>
   perform (Resume 0 low_env) (perform (Resume 0 low_env) (perform (Resume 0 low_env)
     ((running_world entries)
        \<lparr> suspended := [CycleRest ''agent_1'' (trader Active held) True] \<rparr>)))
     = running_world (entries @ [buy_entry])"
  by (simp add: perform_def settle_def executeDecisionCycle_resumed_def
      executeDecisionCycle_resumed_try_def executeDecisionCycle_traded_def
      executeDecisionCycle_updated_def
      cycle_action_def createStrategyInstance_def new_SimpleTraderStrategy_def no_parameters_def
      or_default_def evaluate_def executeTrade_def executeSwap_cases sample_key_ok
      accounts_invalid_def updateBalancesAfterSwap_def getWalletBalance_def getWallet_def
      updateBalance_def updateWalletBalance_def updateTokenBalances_def logActivity_def low_env_def
      running_world_def trader_def default_strategy_def sample_wallets_def buy_entry_def
      buy_text_def Let_def)

lemma after_first_cycle_eq:
  "after_first_cycle = running_world [created_entry, started_entry, buy_entry]"
  unfolding after_first_cycle_def started_eq by (simp add: low_cycle)

lemma timer_fires_eq:
  "perform (IntervalFires 1) (running_world entries)
     = (running_world entries)\<lparr> suspended := [CycleRest ''agent_1'' (trader Active entries) True] \<rparr>"
  by (simp add: perform_def settle_def executeDecisionCycle_def getWallet_def running_world_def
      trader_def sample_wallets_def)

lemma after_second_cycle_eq:
  "after_second_cycle = running_world [created_entry, started_entry, buy_entry, buy_entry]"
  unfolding after_second_cycle_def after_first_cycle_eq timer_fires_eq by (simp add: low_cycle)

lemma reachable_after_second_cycle: "reachable after_second_cycle"
  unfolding after_second_cycle_def after_first_cycle_def funded_world_def
  by (intro reachable.step reachable.start) (simp_all add: initial_world_def)

lemma reachable_deleted_after_restart: "reachable deleted_after_restart"
  unfolding deleted_after_restart_def restarted_while_deleting_def
  by (intro reachable.step reachable_after_second_cycle) simp_all

text \<open>The run in which a start falls between the two halves of a deletion.\<close>

lemma delete_begun_eq:
  "perform (DeleteAgent ''agent_1'' 0) after_second_cycle =
     \<lparr> agents = [''agent_1'' \<mapsto> trader Stopped
          [created_entry, started_entry, buy_entry, buy_entry, stopped_entry 0]],
       activeAgentIds = [], decisionIntervals = Map.empty, runningIntervals = Map.empty,
       nextIntervalHandle = 2, walletTable = sample_wallets,
       suspended = [DeleteRest ''agent_1''] \<rparr>"
  by (simp add: after_second_cycle_eq perform_def settle_def deleteAgent_def stopAgent_def
      logActivity_def Let_def set_delete_def running_world_def trader_def stopped_entry_def)

lemma restarted_while_deleting_eq:
  "restarted_while_deleting =
     \<lparr> agents = [''agent_1'' \<mapsto> trader Active
          [created_entry, started_entry, buy_entry, buy_entry, stopped_entry 0, started_entry]],
       activeAgentIds = [''agent_1''], decisionIntervals = [''agent_1'' \<mapsto> 2],
       runningIntervals = [2 \<mapsto> ''agent_1''],
       nextIntervalHandle = 3, walletTable = sample_wallets,
       suspended = [DeleteRest ''agent_1'',
                    CycleRest ''agent_1'' (trader Active
                      [created_entry, started_entry, buy_entry, buy_entry, stopped_entry 0,
                       started_entry]) True] \<rparr>"
  unfolding restarted_while_deleting_def delete_begun_eq
  by (simp add: perform_def settle_def startAgent_def startDecisionLoop_def
      executeDecisionCycle_def getWallet_def logActivity_def Let_def set_add_def trader_def
      started_entry_def sample_wallets_def eval_nat_numeral)

lemma deleted_after_restart_eq:
  "deleted_after_restart =
     \<lparr> agents = Map.empty,
       activeAgentIds = [''agent_1''], decisionIntervals = [''agent_1'' \<mapsto> 2],
       runningIntervals = [2 \<mapsto> ''agent_1''],
       nextIntervalHandle = 3, walletTable = sample_wallets,
       suspended = [CycleRest ''agent_1'' (trader Active
                      [created_entry, started_entry, buy_entry, buy_entry, stopped_entry 0,
                       started_entry]) True] \<rparr>"
  unfolding deleted_after_restart_def restarted_while_deleting_eq
  by (simp add: perform_def settle_def deleteAgent_rest_def)

lemma schedule_agrees_broken:
  "reachable deleted_after_restart \<and> \<not> schedule_agrees deleted_after_restart"
proof -
  have "status_of deleted_after_restart ''agent_1'' = None"
    by (simp add: status_of_def deleted_after_restart_eq)
  moreover have "decisionIntervals deleted_after_restart ''agent_1'' \<noteq> None"
    by (simp add: deleted_after_restart_eq)
  ultimately have "\<not> schedule_agrees deleted_after_restart"
    unfolding schedule_agrees_def by (metis option.distinct(1))
  with reachable_deleted_after_restart show ?thesis by simp
qed

text \<open>The run of three agents, and the deletion that falls between two turns of the loop.\<close>

lemma create_default:
  "perform (CreateAgent key None agentId 0 default_strategy) w =
     w\<lparr> walletTable := (walletTable w)(key \<mapsto> empty_wallet key),
        agents := (agents w)(agentId \<mapsto>
          \<lparr> agent_id = agentId, walletPublicKey = key, strategy = default_strategy,
            status = Stopped, activityLog = [created_entry] \<rparr>) \<rparr>"
  by (simp add: perform_def settle_def createAgent_def createWallet_def Let_def logActivity_def
      empty_wallet_def created_entry_def default_strategy_def)

lemma start_default:
  assumes "agents w agentId =
             Some \<lparr> agent_id = agentId, walletPublicKey = key, strategy = default_strategy,
                    status = Stopped, activityLog = [created_entry] \<rparr>"
    and "walletTable w key = Some (empty_wallet key)"
    and "suspended w = []"
    and "agentId \<notin> set (activeAgentIds w)"
  shows "perform (Resume 0 low_env) (perform (StartAgent agentId 0) w) =
     w\<lparr> agents := (agents w)(agentId \<mapsto> idle_agent agentId key Active []),
        activeAgentIds := activeAgentIds w @ [agentId],
        runningIntervals := (runningIntervals w)(nextIntervalHandle w \<mapsto> agentId),
        nextIntervalHandle := Suc (nextIntervalHandle w),
        decisionIntervals := (decisionIntervals w)(agentId \<mapsto> nextIntervalHandle w) \<rparr>"
  using assms
  by (simp add: perform_def settle_def startAgent_def startDecisionLoop_def Let_def logActivity_def
      executeDecisionCycle_def executeDecisionCycle_resumed_def executeDecisionCycle_resumed_try_def
      cycle_action_def createStrategyInstance_def new_SimpleTraderStrategy_def no_parameters_def
      or_default_def evaluate_def getWallet_def low_env_def set_add_def idle_agent_def
      empty_wallet_def default_strategy_def started_entry_def waiting_entry_def)

lemma three_agents_active_eq:
  "three_agents_active =
     \<lparr> agents = [''agent_1'' \<mapsto> idle_agent ''agent_1'' sample_key Active [],
                 ''agent_2'' \<mapsto> idle_agent ''agent_2'' key_2 Active [],
                 ''agent_3'' \<mapsto> idle_agent ''agent_3'' key_3 Active []],
       activeAgentIds = [''agent_1'', ''agent_2'', ''agent_3''],
       decisionIntervals = [''agent_1'' \<mapsto> 1, ''agent_2'' \<mapsto> 2, ''agent_3'' \<mapsto> 3],
       runningIntervals = [1 \<mapsto> ''agent_1'', 2 \<mapsto> ''agent_2'', 3 \<mapsto> ''agent_3''],
       nextIntervalHandle = 4, walletTable = three_wallets, suspended = [] \<rparr>"
proof -
  define w3 where "w3 =
     perform (CreateAgent key_3 None ''agent_3'' 0 default_strategy)
       (perform (CreateAgent key_2 None ''agent_2'' 0 default_strategy)
         (perform (CreateAgent sample_key None ''agent_1'' 0 default_strategy) initial_world))"
  have w3: "w3 =
     \<lparr> agents = [''agent_1'' \<mapsto> \<lparr> agent_id = ''agent_1'', walletPublicKey = sample_key,
                      strategy = default_strategy, status = Stopped, activityLog = [created_entry] \<rparr>,
                 ''agent_2'' \<mapsto> \<lparr> agent_id = ''agent_2'', walletPublicKey = key_2,
                      strategy = default_strategy, status = Stopped, activityLog = [created_entry] \<rparr>,
                 ''agent_3'' \<mapsto> \<lparr> agent_id = ''agent_3'', walletPublicKey = key_3,
                      strategy = default_strategy, status = Stopped, activityLog = [created_entry] \<rparr>],
       activeAgentIds = [], decisionIntervals = Map.empty, runningIntervals = Map.empty,
       nextIntervalHandle = 1, walletTable = three_wallets, suspended = [] \<rparr>"
    unfolding w3_def create_default by (simp add: initial_world_def three_wallets_def)
  define w4 where "w4 = perform (Resume 0 low_env) (perform (StartAgent ''agent_1'' 0) w3)"
  have w4: "w4 =
     \<lparr> agents = [''agent_1'' \<mapsto> idle_agent ''agent_1'' sample_key Active [],
                 ''agent_2'' \<mapsto> \<lparr> agent_id = ''agent_2'', walletPublicKey = key_2,
                      strategy = default_strategy, status = Stopped, activityLog = [created_entry] \<rparr>,
                 ''agent_3'' \<mapsto> \<lparr> agent_id = ''agent_3'', walletPublicKey = key_3,
                      strategy = default_strategy, status = Stopped, activityLog = [created_entry] \<rparr>],
       activeAgentIds = [''agent_1''], decisionIntervals = [''agent_1'' \<mapsto> 1],
       runningIntervals = [1 \<mapsto> ''agent_1''],
       nextIntervalHandle = 2, walletTable = three_wallets, suspended = [] \<rparr>"
    unfolding w4_def
    by (subst start_default [where key = sample_key])
       (simp_all add: w3 three_wallets_def sample_key_def key_2_def key_3_def fun_eq_iff)
  define w5 where "w5 = perform (Resume 0 low_env) (perform (StartAgent ''agent_2'' 0) w4)"
  have w5: "w5 =
     \<lparr> agents = [''agent_1'' \<mapsto> idle_agent ''agent_1'' sample_key Active [],
                 ''agent_2'' \<mapsto> idle_agent ''agent_2'' key_2 Active [],
                 ''agent_3'' \<mapsto> \<lparr> agent_id = ''agent_3'', walletPublicKey = key_3,
                      strategy = default_strategy, status = Stopped, activityLog = [created_entry] \<rparr>],
       activeAgentIds = [''agent_1'', ''agent_2''],
       decisionIntervals = [''agent_1'' \<mapsto> 1, ''agent_2'' \<mapsto> 2],
       runningIntervals = [1 \<mapsto> ''agent_1'', 2 \<mapsto> ''agent_2''],
       nextIntervalHandle = 3, walletTable = three_wallets, suspended = [] \<rparr>"
    unfolding w5_def
    by (subst start_default [where key = key_2])
       (simp_all add: w4 three_wallets_def sample_key_def key_2_def key_3_def fun_eq_iff)
  have "three_agents_active = perform (Resume 0 low_env) (perform (StartAgent ''agent_3'' 0) w5)"
    by (simp only: three_agents_active_def foldl.simps w3_def w4_def w5_def)
  also have "\<dots> =
     \<lparr> agents = [''agent_1'' \<mapsto> idle_agent ''agent_1'' sample_key Active [],
                 ''agent_2'' \<mapsto> idle_agent ''agent_2'' key_2 Active [],
                 ''agent_3'' \<mapsto> idle_agent ''agent_3'' key_3 Active []],
       activeAgentIds = [''agent_1'', ''agent_2'', ''agent_3''],
       decisionIntervals = [''agent_1'' \<mapsto> 1, ''agent_2'' \<mapsto> 2, ''agent_3'' \<mapsto> 3],
       runningIntervals = [1 \<mapsto> ''agent_1'', 2 \<mapsto> ''agent_2'', 3 \<mapsto> ''agent_3''],
       nextIntervalHandle = 4, walletTable = three_wallets, suspended = [] \<rparr>"
    by (subst start_default [where key = key_3])
       (simp_all add: w5 three_wallets_def sample_key_def key_2_def key_3_def fun_eq_iff)
  finally show ?thesis .
qed

lemma reachable_three_agents_active: "reachable three_agents_active"
  unfolding three_agents_active_def foldl.simps
  apply (intro reachable.step reachable.start)
                   apply (simp_all only: admissible.simps)
    apply (simp_all add: perform_def settle_def createAgent_def createWallet_def Let_def
      logActivity_def initial_world_def)
  done

lemma stop_all_begun_eq:
  "stop_all_begun =
     \<lparr> agents = [''agent_1'' \<mapsto> idle_agent ''agent_1'' sample_key Stopped [stopped_entry 5],
                 ''agent_2'' \<mapsto> idle_agent ''agent_2'' key_2 Active [],
                 ''agent_3'' \<mapsto> idle_agent ''agent_3'' key_3 Active []],
       activeAgentIds = [''agent_2'', ''agent_3''],
       decisionIntervals = [''agent_2'' \<mapsto> 2, ''agent_3'' \<mapsto> 3],
       runningIntervals = [2 \<mapsto> ''agent_2'', 3 \<mapsto> ''agent_3''],
       nextIntervalHandle = 4, walletTable = three_wallets,
       suspended = [StopAllRest [''agent_2'', ''agent_3''] 5] \<rparr>"
  by (simp add: stop_all_begun_def three_agents_active_eq perform_def settle_def stopAllAgents_def
      stopAgent_def Let_def logActivity_def set_delete_def idle_agent_def stopped_entry_def
      fun_eq_iff)

lemma second_agent_stopped_eq:
  "perform (StopAgent ''agent_2'' 5) stop_all_begun =
     \<lparr> agents = [''agent_1'' \<mapsto> idle_agent ''agent_1'' sample_key Stopped [stopped_entry 5],
                 ''agent_2'' \<mapsto> idle_agent ''agent_2'' key_2 Stopped [stopped_entry 5],
                 ''agent_3'' \<mapsto> idle_agent ''agent_3'' key_3 Active []],
       activeAgentIds = [''agent_3''],
       decisionIntervals = [''agent_3'' \<mapsto> 3],
       runningIntervals = [3 \<mapsto> ''agent_3''],
       nextIntervalHandle = 4, walletTable = three_wallets,
       suspended = [StopAllRest [''agent_2'', ''agent_3''] 5] \<rparr>"
  by (simp add: stop_all_begun_eq perform_def settle_def
      stopAgent_def Let_def logActivity_def set_delete_def idle_agent_def stopped_entry_def
      fun_eq_iff)

lemma second_agent_gone_eq:
  "second_agent_gone =
     \<lparr> agents = [''agent_1'' \<mapsto> idle_agent ''agent_1'' sample_key Stopped [stopped_entry 5],
                 ''agent_3'' \<mapsto> idle_agent ''agent_3'' key_3 Active []],
       activeAgentIds = [''agent_3''],
       decisionIntervals = [''agent_3'' \<mapsto> 3],
       runningIntervals = [3 \<mapsto> ''agent_3''],
       nextIntervalHandle = 4, walletTable = three_wallets,
       suspended = [StopAllRest [''agent_2'', ''agent_3''] 5] \<rparr>"
  unfolding second_agent_gone_def second_agent_stopped_eq
  by (simp add: perform_def settle_def deleteAgent_def deleteAgent_rest_def fun_eq_iff)

lemma stop_all_failed_eq:
  "step (Resume 0 low_env) second_agent_gone
     = (Failed (AgentNotFound ''agent_2''), second_agent_gone\<lparr> suspended := [] \<rparr>)"
  by (simp add: second_agent_gone_eq stopAgent_def)

section \<open>The claims about the controller\<close>

text \<open>
  Claim C7. Whatever happens next (a call to create, start, stop, stop all or delete,
  a timer that fires, a suspended call or decision cycle that goes on, a balance
  refresh) in a state where every activity log has at most 100 entries, every log has
  at most 100 entries afterwards; so it is in every state reached from the initial
  one, however the calls interleave. An append keeps the last 100 entries of the old
  log followed by the new entry: what is kept is a suffix of that sequence, in its
  order, it ends with the new entry, and its length is the smaller of 100 and the old
  length plus one, so the entries dropped are the oldest.
\<close>

theorem activity_log_capped:
  "(logs_bounded w \<longrightarrow> logs_bounded (perform opn w))
   \<and> (reachable w \<longrightarrow> logs_bounded w)
   \<and> (agents w agentId = Some agent \<longrightarrow>
        suffix (log_of (logActivity agentId activity w) agentId) (activityLog agent @ [activity])
        \<and> length (log_of (logActivity agentId activity w) agentId)
            = min 100 (length (activityLog agent) + 1)
        \<and> last (log_of (logActivity agentId activity w) agentId) = activity)"
  using logActivity_keeps_newest [of w agentId agent activity]
  by (auto intro: logs_bounded_perform reachable_logs_bounded)

theorem activity_log_capped_witness:
  "reachable after_second_cycle
   \<and> logs_bounded after_second_cycle
   \<and> length (log_of (logActivity ''agent_1'' buy_entry
                       (running_world (replicate 100 started_entry))) ''agent_1'') = 100
   \<and> last (log_of (logActivity ''agent_1'' buy_entry
                     (running_world (replicate 100 started_entry))) ''agent_1'') = buy_entry"
  using reachable_after_second_cycle
    activity_log_capped [of after_second_cycle "IntervalFires 1"]
    activity_log_capped
      [of "running_world (replicate 100 started_entry)" "IntervalFires 1"
          "''agent_1''" "trader Active (replicate 100 started_entry)" buy_entry]
  by (simp add: running_world_def trader_def)

text \<open>
  Claim C9 fails on the code. \<open>deleteAgent\<close> stops an active agent and is suspended
  at its \<open>await\<close> before it removes the agent. The agent of the sample run is
  active with timer 1. \<open>deleteAgent\<close> is called for it and suspended; before it goes
  on, \<open>startAgent\<close> is called for the same id and returns, the agent being active
  again with the new timer 2; then \<open>deleteAgent\<close> goes on and removes the agent.
  In the state reached no agent has the id, so none is active, while the id is in the
  active Set and the controller holds timer 2 for it, which is running. No call
  clears it: \<open>stopAgent\<close>, \<open>deleteAgent\<close> and \<open>stopAllAgents\<close> all throw
  "Agent not found" and leave the state as it is.
\<close>

theorem timer_outlives_deleted_agent:
  "status_of after_second_cycle ''agent_1'' = Some Active
   \<and> decisionIntervals after_second_cycle ''agent_1'' = Some 1
   \<and> fst (step (DeleteAgent ''agent_1'' 0) after_second_cycle) = Suspended (DeleteRest ''agent_1'')
   \<and> fst (step (StartAgent ''agent_1'' 0) (perform (DeleteAgent ''agent_1'' 0) after_second_cycle))
       = Done
   \<and> suspended restarted_while_deleting ! 0 = DeleteRest ''agent_1''
   \<and> agents deleted_after_restart ''agent_1'' = None
   \<and> activeAgentIds deleted_after_restart = [''agent_1'']
   \<and> decisionIntervals deleted_after_restart ''agent_1'' = Some 2
   \<and> runningIntervals deleted_after_restart 2 = Some ''agent_1''
   \<and> stopAgent ''agent_1'' 9 deleted_after_restart = Inl (AgentNotFound ''agent_1'')
   \<and> deleteAgent ''agent_1'' 9 deleted_after_restart
       = (Failed (AgentNotFound ''agent_1''), deleted_after_restart)
   \<and> stopAllAgents 9 deleted_after_restart
       = (Failed (AgentNotFound ''agent_1''), deleted_after_restart)"
proof -
  have a: "status_of after_second_cycle ''agent_1'' = Some Active
     \<and> decisionIntervals after_second_cycle ''agent_1'' = Some 1
     \<and> fst (step (DeleteAgent ''agent_1'' 0) after_second_cycle) = Suspended (DeleteRest ''agent_1'')"
    by (simp add: after_second_cycle_eq running_world_def status_of_def trader_def deleteAgent_def
        stopAgent_def Let_def)
  have b: "fst (step (StartAgent ''agent_1'' 0) (perform (DeleteAgent ''agent_1'' 0) after_second_cycle))
       = Done"
    unfolding delete_begun_eq by (simp add: startAgent_def trader_def Let_def)
  have c: "suspended restarted_while_deleting ! 0 = DeleteRest ''agent_1''"
    by (simp add: restarted_while_deleting_eq)
  have d: "agents deleted_after_restart ''agent_1'' = None
     \<and> activeAgentIds deleted_after_restart = [''agent_1'']
     \<and> decisionIntervals deleted_after_restart ''agent_1'' = Some 2
     \<and> runningIntervals deleted_after_restart 2 = Some ''agent_1''"
    by (simp add: deleted_after_restart_eq)
  have e: "stopAgent ''agent_1'' 9 deleted_after_restart = Inl (AgentNotFound ''agent_1'')"
    by (simp add: stopAgent_def d)
  have f: "deleteAgent ''agent_1'' 9 deleted_after_restart
       = (Failed (AgentNotFound ''agent_1''), deleted_after_restart)"
    by (simp add: deleteAgent_def d e)
  have g: "stopAllAgents 9 deleted_after_restart
       = (Failed (AgentNotFound ''agent_1''), deleted_after_restart)"
    by (simp add: stopAllAgents_def d e)
  from a b c d e f g show ?thesis by simp
qed

text \<open>
  Claim C2, as the code has it. \<open>stopAllAgents\<close> takes the ids of the active Set in
  insertion order and stops one per turn, suspended after each. Run with nothing in
  between, the turns stop every id of the Set when all of them are registered, and no
  turn throws. When the Set holds an id that is not registered, the turn for it
  throws "Agent not found" and the method fails there: the ids before it are stopped
  and every other agent has the status it had. Turn by turn: the call, and a later
  turn, stops the next id when it is registered and is suspended with the ids left; a
  turn whose next id is not registered any more, whatever has run in between, throws,
  changes no status and leaves nothing suspended of the call, so the ids left are
  never stopped.
\<close>

theorem stopAllAgents_stops_until_throw:
  "(set (activeAgentIds w) \<subseteq> dom (agents w) \<longrightarrow>
      fst (stopAllAgents_alone now w) = None
      \<and> (\<forall>k \<in> set (activeAgentIds w). status_of (snd (stopAllAgents_alone now w)) k = Some Stopped))
   \<and> (activeAgentIds w = pre @ bad # post \<and> set pre \<subseteq> dom (agents w) \<and> agents w bad = None \<longrightarrow>
        fst (stopAllAgents_alone now w) = Some (AgentNotFound bad)
        \<and> (\<forall>k \<in> set pre. status_of (snd (stopAllAgents_alone now w)) k = Some Stopped)
        \<and> (\<forall>k. k \<notin> set pre \<longrightarrow> status_of (snd (stopAllAgents_alone now w)) k = status_of w k))
   \<and> (activeAgentIds w = agentId # rest \<and> agents w agentId \<noteq> None \<longrightarrow>
        fst (stopAllAgents now w) = Suspended (StopAllRest rest now)
        \<and> status_of (snd (stopAllAgents now w)) agentId = Some Stopped)
   \<and> (agents w agentId \<noteq> None \<longrightarrow>
        fst (resume (StopAllRest (agentId # rest) now) env w) = Suspended (StopAllRest rest now)
        \<and> status_of (snd (resume (StopAllRest (agentId # rest) now) env w)) agentId = Some Stopped)
   \<and> (k < length (suspended w) \<and> suspended w ! k = StopAllRest (bad # post) now
        \<and> agents w bad = None \<longrightarrow>
        fst (step (Resume k env) w) = Failed (AgentNotFound bad)
        \<and> status_of (perform (Resume k env) w) = status_of w
        \<and> suspended (perform (Resume k env) w) = take k (suspended w) @ drop (Suc k) (suspended w))"
proof -
  have c1: "set (activeAgentIds w) \<subseteq> dom (agents w) \<longrightarrow>
      fst (stopAllAgents_alone now w) = None
      \<and> (\<forall>k \<in> set (activeAgentIds w). status_of (snd (stopAllAgents_alone now w)) k = Some Stopped)"
    using stopAll_alone_all [of "activeAgentIds w" w now] by (simp add: stopAllAgents_alone_def)
  have c2: "activeAgentIds w = pre @ bad # post \<and> set pre \<subseteq> dom (agents w) \<and> agents w bad = None \<longrightarrow>
        fst (stopAllAgents_alone now w) = Some (AgentNotFound bad)
        \<and> (\<forall>k \<in> set pre. status_of (snd (stopAllAgents_alone now w)) k = Some Stopped)
        \<and> (\<forall>k. k \<notin> set pre \<longrightarrow> status_of (snd (stopAllAgents_alone now w)) k = status_of w k)"
  proof
    assume a: "activeAgentIds w = pre @ bad # post \<and> set pre \<subseteq> dom (agents w) \<and> agents w bad = None"
    then have e: "stopAllAgents_alone now w = (Some (AgentNotFound bad), snd (stopAll_alone pre now w))"
      by (simp add: stopAllAgents_alone_def stopAll_alone_abort)
    from a stopAll_alone_all [of pre w now]
    have s: "status_of (snd (stopAll_alone pre now w))
         = (\<lambda>k. if k \<in> set pre then Some Stopped else status_of w k)" by simp
    from e s show "fst (stopAllAgents_alone now w) = Some (AgentNotFound bad)
        \<and> (\<forall>k \<in> set pre. status_of (snd (stopAllAgents_alone now w)) k = Some Stopped)
        \<and> (\<forall>k. k \<notin> set pre \<longrightarrow> status_of (snd (stopAllAgents_alone now w)) k = status_of w k)"
      by simp
  qed
  have c3: "activeAgentIds w = agentId # rest \<and> agents w agentId \<noteq> None \<longrightarrow>
        fst (stopAllAgents now w) = Suspended (StopAllRest rest now)
        \<and> status_of (snd (stopAllAgents now w)) agentId = Some Stopped"
    using stopAll_turn_registered [of w agentId rest now] by (simp add: stopAllAgents_def)
  have c4: "agents w agentId \<noteq> None \<longrightarrow>
        fst (resume (StopAllRest (agentId # rest) now) env w) = Suspended (StopAllRest rest now)
        \<and> status_of (snd (resume (StopAllRest (agentId # rest) now) env w)) agentId = Some Stopped"
    using stopAll_turn_registered [of w agentId rest now] by simp
  have c5: "k < length (suspended w) \<and> suspended w ! k = StopAllRest (bad # post) now
        \<and> agents w bad = None \<longrightarrow>
        fst (step (Resume k env) w) = Failed (AgentNotFound bad)
        \<and> status_of (perform (Resume k env) w) = status_of w
        \<and> suspended (perform (Resume k env) w) = take k (suspended w) @ drop (Suc k) (suspended w)"
  proof
    assume a: "k < length (suspended w) \<and> suspended w ! k = StopAllRest (bad # post) now
          \<and> agents w bad = None"
    define w1 where "w1 = w\<lparr> suspended := take k (suspended w) @ drop (Suc k) (suspended w) \<rparr>"
    have "agents w1 bad = None" using a by (simp add: w1_def)
    from stopAll_turn_throws [OF this, of post now] a
    have s: "step (Resume k env) w = (Failed (AgentNotFound bad), w1)"
      by (simp add: w1_def)
    then have p: "perform (Resume k env) w = w1" by (simp add: perform_def settle_def)
    from s show "fst (step (Resume k env) w) = Failed (AgentNotFound bad)
        \<and> status_of (perform (Resume k env) w) = status_of w
        \<and> suspended (perform (Resume k env) w) = take k (suspended w) @ drop (Suc k) (suspended w)"
      unfolding p by (simp add: w1_def status_of_def fun_eq_iff)
  qed
  show ?thesis by (intro conjI c1 c2 c3 c4 c5)
qed

theorem stopAllAgents_stops_until_throw_witness:
  "activeAgentIds three_agents_active = [''agent_1'', ''agent_2'', ''agent_3'']
   \<and> fst (stopAllAgents_alone 5 three_agents_active) = None
   \<and> status_of (snd (stopAllAgents_alone 5 three_agents_active)) ''agent_1'' = Some Stopped
   \<and> status_of (snd (stopAllAgents_alone 5 three_agents_active)) ''agent_2'' = Some Stopped
   \<and> status_of (snd (stopAllAgents_alone 5 three_agents_active)) ''agent_3'' = Some Stopped
   \<and> fst (stopAllAgents 5 three_agents_active) = Suspended (StopAllRest [''agent_2'', ''agent_3''] 5)
   \<and> status_of (snd (stopAllAgents 5 three_agents_active)) ''agent_1'' = Some Stopped
   \<and> fst (resume (StopAllRest [''agent_2'', ''agent_3''] 5) low_env stop_all_begun)
       = Suspended (StopAllRest [''agent_3''] 5)
   \<and> activeAgentIds deleted_after_restart = [''agent_1'']
   \<and> agents deleted_after_restart ''agent_1'' = None
   \<and> fst (stopAllAgents_alone 9 deleted_after_restart) = Some (AgentNotFound ''agent_1'')
   \<and> suspended second_agent_gone ! 0 = StopAllRest [''agent_2'', ''agent_3''] 5
   \<and> agents second_agent_gone ''agent_2'' = None
   \<and> fst (step (Resume 0 low_env) second_agent_gone) = Failed (AgentNotFound ''agent_2'')
   \<and> status_of (perform (Resume 0 low_env) second_agent_gone) = status_of second_agent_gone"
proof -
  have ids: "activeAgentIds three_agents_active = [''agent_1'', ''agent_2'', ''agent_3'']"
    and reg: "set (activeAgentIds three_agents_active) \<subseteq> dom (agents three_agents_active)"
    and a1: "agents three_agents_active ''agent_1'' \<noteq> None"
    by (simp_all add: three_agents_active_eq)
  have a2: "agents stop_all_begun ''agent_2'' \<noteq> None"
    by (simp add: stop_all_begun_eq)
  have d: "activeAgentIds deleted_after_restart = [] @ ''agent_1'' # []"
    "agents deleted_after_restart ''agent_1'' = None"
    by (simp_all add: deleted_after_restart_eq)
  have g: "0 < length (suspended second_agent_gone)"
    "suspended second_agent_gone ! 0 = StopAllRest [''agent_2'', ''agent_3''] 5"
    "agents second_agent_gone ''agent_2'' = None"
    by (simp_all add: second_agent_gone_eq)
  note T1 = stopAllAgents_stops_until_throw
              [of three_agents_active 5 "[]" "''agent_1''" "[]" "''agent_1''"
                  "[''agent_2'', ''agent_3'']" low_env 0]
  note T2 = stopAllAgents_stops_until_throw
              [of stop_all_begun 5 "[]" "''agent_1''" "[]" "''agent_2''" "[''agent_3'']" low_env 0]
  note T3 = stopAllAgents_stops_until_throw
              [of deleted_after_restart 9 "[]" "''agent_1''" "[]" "''agent_1''" "[]" low_env 0]
  note T4 = stopAllAgents_stops_until_throw
              [of second_agent_gone 5 "[]" "''agent_2''" "[''agent_3'']" "''agent_2''" "[]" low_env 0]
  from T1 reg have "fst (stopAllAgents_alone 5 three_agents_active) = None
      \<and> (\<forall>k \<in> set (activeAgentIds three_agents_active).
            status_of (snd (stopAllAgents_alone 5 three_agents_active)) k = Some Stopped)" by blast
  then have p1: "fst (stopAllAgents_alone 5 three_agents_active) = None
     \<and> status_of (snd (stopAllAgents_alone 5 three_agents_active)) ''agent_1'' = Some Stopped
     \<and> status_of (snd (stopAllAgents_alone 5 three_agents_active)) ''agent_2'' = Some Stopped
     \<and> status_of (snd (stopAllAgents_alone 5 three_agents_active)) ''agent_3'' = Some Stopped"
    unfolding ids by simp
  from T1 ids a1 have p2:
    "fst (stopAllAgents 5 three_agents_active) = Suspended (StopAllRest [''agent_2'', ''agent_3''] 5)
     \<and> status_of (snd (stopAllAgents 5 three_agents_active)) ''agent_1'' = Some Stopped" by blast
  from T2 a2 have p3: "fst (resume (StopAllRest [''agent_2'', ''agent_3''] 5) low_env stop_all_begun)
       = Suspended (StopAllRest [''agent_3''] 5)" by blast
  have "set [] \<subseteq> dom (agents deleted_after_restart)" by simp
  with T3 d have p4: "fst (stopAllAgents_alone 9 deleted_after_restart) = Some (AgentNotFound ''agent_1'')"
    by blast
  from T4 g have p5: "fst (step (Resume 0 low_env) second_agent_gone) = Failed (AgentNotFound ''agent_2'')
   \<and> status_of (perform (Resume 0 low_env) second_agent_gone) = status_of second_agent_gone" by blast
  from ids p1 p2 p3 d p4 g p5 show ?thesis by simp
qed

text \<open>
  Claim C2 as stated fails. Three agents are active. \<open>stopAllAgents\<close> stops the
  first and is suspended with the second and third left. Before it goes on, the
  second agent is stopped and deleted, both calls returning at once. The second turn
  then throws "Agent not found" and the method fails: nothing of it is left suspended,
  the first agent is stopped, and the third, active before, is still active with its
  timer running.
\<close>

theorem stopAllAgents_aborts_counterexample:
  "activeAgentIds three_agents_active = [''agent_1'', ''agent_2'', ''agent_3'']
   \<and> status_of three_agents_active ''agent_1'' = Some Active
   \<and> status_of three_agents_active ''agent_2'' = Some Active
   \<and> status_of three_agents_active ''agent_3'' = Some Active
   \<and> fst (step (StopAllAgents 5) three_agents_active)
       = Suspended (StopAllRest [''agent_2'', ''agent_3''] 5)
   \<and> suspended stop_all_begun = [StopAllRest [''agent_2'', ''agent_3''] 5]
   \<and> fst (step (StopAgent ''agent_2'' 5) stop_all_begun) = Done
   \<and> fst (step (DeleteAgent ''agent_2'' 5) (perform (StopAgent ''agent_2'' 5) stop_all_begun)) = Done
   \<and> suspended second_agent_gone = [StopAllRest [''agent_2'', ''agent_3''] 5]
   \<and> fst (step (Resume 0 low_env) second_agent_gone) = Failed (AgentNotFound ''agent_2'')
   \<and> suspended stop_all_failed = []
   \<and> status_of stop_all_failed ''agent_1'' = Some Stopped
   \<and> status_of stop_all_failed ''agent_3'' = Some Active
   \<and> decisionIntervals stop_all_failed ''agent_3'' = Some 3
   \<and> runningIntervals stop_all_failed 3 = Some ''agent_3''"
proof -
  have a: "activeAgentIds three_agents_active = [''agent_1'', ''agent_2'', ''agent_3'']
   \<and> status_of three_agents_active ''agent_1'' = Some Active
   \<and> status_of three_agents_active ''agent_2'' = Some Active
   \<and> status_of three_agents_active ''agent_3'' = Some Active"
    by (simp add: three_agents_active_eq status_of_def idle_agent_def)
  have "step (StopAllAgents 5) three_agents_active
          = (Suspended (StopAllRest [''agent_2'', ''agent_3''] 5),
             stop_all_begun\<lparr> suspended := [] \<rparr>)"
    unfolding stop_all_begun_eq
    by (simp add: three_agents_active_eq stopAllAgents_def stopAgent_def Let_def logActivity_def
        set_delete_def idle_agent_def stopped_entry_def fun_eq_iff)
  then have b: "fst (step (StopAllAgents 5) three_agents_active)
       = Suspended (StopAllRest [''agent_2'', ''agent_3''] 5)" by simp
  have c: "suspended stop_all_begun = [StopAllRest [''agent_2'', ''agent_3''] 5]"
    by (simp add: stop_all_begun_eq)
  have d: "fst (step (StopAgent ''agent_2'' 5) stop_all_begun) = Done"
    by (simp add: stop_all_begun_eq stopAgent_def)
  have e: "fst (step (DeleteAgent ''agent_2'' 5) (perform (StopAgent ''agent_2'' 5) stop_all_begun))
             = Done"
    unfolding second_agent_stopped_eq by (simp add: deleteAgent_def)
  have f: "suspended second_agent_gone = [StopAllRest [''agent_2'', ''agent_3''] 5]"
    by (simp add: second_agent_gone_eq)
  have g: "fst (step (Resume 0 low_env) second_agent_gone) = Failed (AgentNotFound ''agent_2'')"
    unfolding stop_all_failed_eq by simp
  have h: "stop_all_failed = second_agent_gone\<lparr> suspended := [] \<rparr>"
    unfolding stop_all_failed_def perform_def stop_all_failed_eq by (simp add: settle_def)
  have i: "suspended stop_all_failed = []
   \<and> status_of stop_all_failed ''agent_1'' = Some Stopped
   \<and> status_of stop_all_failed ''agent_3'' = Some Active
   \<and> decisionIntervals stop_all_failed ''agent_3'' = Some 3
   \<and> runningIntervals stop_all_failed 3 = Some ''agent_3''"
    unfolding h by (simp add: second_agent_gone_eq status_of_def idle_agent_def)
  from a b c d e f g i show ?thesis by simp
qed

text \<open>
  Claim C3, as the code has it. The form that creates agents rejects a buy threshold
  that is not below the sell threshold with an "Invalid Input" alert and creates
  nothing; a configuration it passes on has a buy threshold below its sell threshold.
  \<open>createAgent\<close> itself checks nothing: whenever the key store accepts the new key it
  returns the agent, with the configuration it was given.
\<close>

theorem thresholds_checked_by_form:
  "(s \<le> b \<longrightarrow>
      handleCreate selectedStrategy (Some b) (Some s) (Some m) newKey storeKey agentId now w
        = ([Alert ''Invalid Input'' ''Buy threshold must be less than sell threshold''], w))
   \<and> (s \<le> b \<longrightarrow>
        (\<exists>msg. handleCreate selectedStrategy (Some b) (Some s) minBalanceNum
                  newKey storeKey agentId now w = ([Alert ''Invalid Input'' msg], w)))
   \<and> (handleCreate_validate selectedStrategy buyThresholdNum sellThresholdNum minBalanceNum = Inr strat
        \<longrightarrow> (\<exists>b' s'. p_buyThreshold (parameters strat) = Some b'
                    \<and> p_sellThreshold (parameters strat) = Some s' \<and> b' < s'))
   \<and> \<not> isl (createAgent newKey None agentId now strat' w)
   \<and> (createAgent newKey None agentId now strat' w = Inr (agent, w') \<longrightarrow>
        strategy agent = strat' \<and> agents w' agentId = Some agent)"
  using createAgent_result [of newKey None agentId now strat' w agent w']
  by (auto simp add: handleCreate_def handleCreate_validate_def createAgent_accepts
      split: if_splits)

theorem thresholds_checked_by_form_witness:
  "(90 :: rat) \<le> 110
   \<and> handleCreate SimpleTrader (Some 110) (Some 90) (Some (1 / 10)) sample_key None ''agent_1'' 0
        initial_world
       = ([Alert ''Invalid Input'' ''Buy threshold must be less than sell threshold''], initial_world)"
  using thresholds_checked_by_form
    [of 90 110 SimpleTrader "1 / 10" sample_key None "''agent_1''" 0 initial_world]
  by simp

text \<open>
  Claim C3 as stated fails. A configuration with buy threshold 110 and sell threshold
  90 is not rejected by \<open>createAgent\<close>: the agent is registered with it, and the
  strategy instance built from it has thresholds 110 and 90.
\<close>

theorem createAgent_inverted_counterexample:
  "\<not> isl (createAgent sample_key None ''agent_1'' 0 inverted_strategy initial_world)
   \<and> map_option strategy
        (agents (perform (CreateAgent sample_key None ''agent_1'' 0 inverted_strategy) initial_world)
           ''agent_1'')
       = Some inverted_strategy
   \<and> buyThreshold (createStrategyInstance inverted_strategy) = 110
   \<and> sellThreshold (createStrategyInstance inverted_strategy) = 90"
  by (simp add: perform_def settle_def createAgent_def createWallet_def Let_def logActivity_def
      initial_world_def inverted_strategy_def createStrategyInstance_def
      new_SimpleTraderStrategy_def or_default_def)

text \<open>
  Claim C1 fails on the code. Every decision cycle builds a new strategy instance,
  whose last action is "wait", so nothing is remembered from one cycle to the next.
  An agent with the default strategy and a wallet of 1 SOL is started, its first
  cycle runs at price 85, and its timer fires once more at price 85: the log shows
  the creation, the start and then two successful trades, both with the text of a
  buy, the balance being back at 1 SOL after the first.
\<close>

theorem consecutive_cycles_both_buy:
  "lastAction (createStrategyInstance cfg) = LastWait
   \<and> log_of after_first_cycle ''agent_1'' = [created_entry, started_entry, buy_entry]
   \<and> log_of after_second_cycle ''agent_1'' = [created_entry, started_entry, buy_entry, buy_entry]
   \<and> action buy_entry = ''trade'' \<and> decision buy_entry = buy_text
   \<and> map_option balance (walletTable after_first_cycle sample_key) = Some 1"
  by (simp add: after_first_cycle_eq after_second_cycle_eq log_of_def running_world_def
      createStrategyInstance_def new_SimpleTraderStrategy_def buy_entry_def sample_wallets_def
      trader_def split: strategy_type.splits)

end
